theory Spec2Isabelle
  imports Complex_Main
begin

section \<open>Python values\<close>

text \<open>
  The values that \<^verbatim>\<open>json.loads\<close> can return and that the dictionary literals of
  \<^verbatim>\<open>api/routes/covert.py\<close> are built from. A \<^verbatim>\<open>dict\<close> with string keys is an
  association list in insertion order, read with \<open>map_of\<close>. A \<^verbatim>\<open>str\<close> is the list of
  the bytes of its UTF-8 encoding: the module only concatenates and compares strings, and
  both commute with the encoding. Floats are carried, never computed with.
\<close>

datatype pyfloat = Finite rat | PosInf | NegInf | NaN

datatype pyval =
    PNone
  | PBool bool
  | PInt int
  | PFloat pyfloat
  | PStr string
  | PList "pyval list"
  | PDict "(string \<times> pyval) list"

section \<open>The language catalog\<close>

text \<open>\<^verbatim>\<open>class ProgrammingLanguage(str, Enum)\<close>, members in definition order.\<close>

datatype ProgrammingLanguage =
    JAVASCRIPT | TYPESCRIPT | PHP | HTML | CSS
  | PYTHON | JAVA | CSHARP | GO | RUST | RUBY | NODE
  | KOTLIN | SWIFT | DART | FLUTTER | REACT_NATIVE
  | CPP | C | ASSEMBLY
  | SQL | PLSQL | MONGODB
  | BASH | POWERSHELL
  | SCALA | HASKELL | ELIXIR
  | R | JULIA | MATLAB
  | TERRAFORM | KUBERNETES | DOCKER
  | LUA | PERL | GROOVY | COBOL | FORTRAN

text \<open>\<^verbatim>\<open>lang.value\<close>.\<close>

fun lang_value :: "ProgrammingLanguage \<Rightarrow> string" where
  "lang_value JAVASCRIPT = ''javascript''"
| "lang_value TYPESCRIPT = ''typescript''"
| "lang_value PHP = ''php''"
| "lang_value HTML = ''html''"
| "lang_value CSS = ''css''"
| "lang_value PYTHON = ''python''"
| "lang_value JAVA = ''java''"
| "lang_value CSHARP = ''csharp''"
| "lang_value GO = ''go''"
| "lang_value RUST = ''rust''"
| "lang_value RUBY = ''ruby''"
| "lang_value NODE = ''nodejs''"
| "lang_value KOTLIN = ''kotlin''"
| "lang_value SWIFT = ''swift''"
| "lang_value DART = ''dart''"
| "lang_value FLUTTER = ''flutter''"
| "lang_value REACT_NATIVE = ''react_native''"
| "lang_value CPP = ''cpp''"
| "lang_value C = ''c''"
| "lang_value ASSEMBLY = ''assembly''"
| "lang_value SQL = ''sql''"
| "lang_value PLSQL = ''plsql''"
| "lang_value MONGODB = ''mongodb''"
| "lang_value BASH = ''bash''"
| "lang_value POWERSHELL = ''powershell''"
| "lang_value SCALA = ''scala''"
| "lang_value HASKELL = ''haskell''"
| "lang_value ELIXIR = ''elixir''"
| "lang_value R = ''r''"
| "lang_value JULIA = ''julia''"
| "lang_value MATLAB = ''matlab''"
| "lang_value TERRAFORM = ''terraform''"
| "lang_value KUBERNETES = ''kubernetes''"
| "lang_value DOCKER = ''docker''"
| "lang_value LUA = ''lua''"
| "lang_value PERL = ''perl''"
| "lang_value GROOVY = ''groovy''"
| "lang_value COBOL = ''cobol''"
| "lang_value FORTRAN = ''fortran''"

text \<open>Iterating the enum class (\<^verbatim>\<open>for lang in ProgrammingLanguage\<close>) yields its members
  in definition order.\<close>

definition ProgrammingLanguage_members :: "ProgrammingLanguage list" where
  "ProgrammingLanguage_members =
    [JAVASCRIPT, TYPESCRIPT, PHP, HTML, CSS,
     PYTHON, JAVA, CSHARP, GO, RUST, RUBY, NODE,
     KOTLIN, SWIFT, DART, FLUTTER, REACT_NATIVE,
     CPP, C, ASSEMBLY,
     SQL, PLSQL, MONGODB,
     BASH, POWERSHELL,
     SCALA, HASKELL, ELIXIR,
     R, JULIA, MATLAB,
     TERRAFORM, KUBERNETES, DOCKER,
     LUA, PERL, GROOVY, COBOL, FORTRAN]"

text \<open>\<^verbatim>\<open>[lang.value for lang in ProgrammingLanguage]\<close>.\<close>

definition language_values :: "string list" where
  "language_values = map lang_value ProgrammingLanguage_members"

section \<open>Request, response and pipeline state\<close>

text \<open>The keyword arguments of one call of \<^verbatim>\<open>chat\<close>. The temperature is the numeric
  literal of the call (\<^verbatim>\<open>0\<close>, \<^verbatim>\<open>0.3\<close>), read at its decimal value; the module does
  no arithmetic on it.\<close>

record chat_args =
  prompt :: string
  temperature :: rat
  response_format :: pyval

record CodeConvertRequest =
  code :: string
  prompt :: string

record CodeConvertResponse =
  code :: string
  language_specific_notes :: "string list"
  potential_compatibility_issues :: "string list"

text \<open>
  \<^verbatim>\<open>ConversionState\<close> is a \<^verbatim>\<open>TypedDict\<close>: its annotations are not checked when the
  program runs, so the three fields the stages write hold whatever \<^verbatim>\<open>json.loads\<close>
  returned.
\<close>

record ConversionState =
  code :: string
  prompt :: string
  source_language :: pyval
  target_language :: pyval
  result :: pyval

text \<open>The default of the \<^verbatim>\<open>prompt\<close> field of \<^verbatim>\<open>CodeConvertRequest\<close>.\<close>

definition default_prompt :: string where
  "default_prompt = ''Convert the code to the target language.''"

text \<open>Building the request model: \<^verbatim>\<open>prompt\<close> is \<open>None\<close> when the body omits the field.\<close>

definition CodeConvertRequest_init :: "string \<Rightarrow> string option \<Rightarrow> CodeConvertRequest" where
  "CodeConvertRequest_init c p =
     \<lparr>CodeConvertRequest.code = c,
      CodeConvertRequest.prompt = (case p of None \<Rightarrow> default_prompt | Some s \<Rightarrow> s)\<rparr>"

section \<open>Exceptions and the collaborators\<close>

text \<open>
  \<open>Raised m\<close> is an exception of a collaborator (the gateway, \<^verbatim>\<open>json.loads\<close>), known
  by its text \<open>m\<close>; the others are raised by the interpreter and the libraries on the
  module's own operations: subscripting a dict with a missing key, subscripting a value
  that is no dict with a string, building the response model from values of the wrong
  type (the names of the fields refused), and running the workflow.
\<close>

datatype exn =
    Raised string
  | KeyError string
  | TypeError pyval
  | ValidationError "string list"
  | GraphError string

text \<open>
  What the module calls and does not define: the gateway \<^verbatim>\<open>utils.chat.chat\<close>, with a
  state of its own of type \<open>'g\<close> (everything its answer depends on besides its
  arguments), which returns a string or raises; \<^verbatim>\<open>json.loads\<close>; the text an f-string
  inserts for a value that is not a \<^verbatim>\<open>str\<close>; the text of an exception of the
  interpreter or a library. The exceptions are those that \<^verbatim>\<open>except Exception\<close> catches.
\<close>

record 'g env =
  chat :: "chat_args \<Rightarrow> 'g \<Rightarrow> (exn + string) \<times> 'g"
  json_loads :: "string \<Rightarrow> exn + pyval"
  py_str :: "pyval \<Rightarrow> string"
  exc_text :: "exn \<Rightarrow> string"

text \<open>The gateway's state and the log of the calls made to it, oldest first.\<close>

record 'g world =
  gateway :: 'g
  calls :: "chat_args list"

definition call_chat :: "'g env \<Rightarrow> chat_args \<Rightarrow> 'g world \<Rightarrow> (exn + string) \<times> 'g world" where
  "call_chat env args w =
     (case chat env args (gateway w) of
        (r, g') \<Rightarrow> (r, \<lparr>gateway = g', calls = calls w @ [args]\<rparr>))"

text \<open>\<^verbatim>\<open>{v}\<close> in an f-string: a \<^verbatim>\<open>str\<close> is inserted as it is.\<close>

definition format_value :: "'g env \<Rightarrow> pyval \<Rightarrow> string" where
  "format_value env v = (case v of PStr s \<Rightarrow> s | _ \<Rightarrow> py_str env v)"

text \<open>\<^verbatim>\<open>str(e)\<close>. The text of a \<^verbatim>\<open>KeyError\<close> is the \<^verbatim>\<open>repr\<close> of the key, which for the
  keys of this module (letters and underscores) is the key between single quotes.\<close>

definition exn_str :: "'g env \<Rightarrow> exn \<Rightarrow> string" where
  "exn_str env e =
     (case e of
        Raised m \<Rightarrow> m
      | KeyError k \<Rightarrow> [CHR 0x27] @ k @ [CHR 0x27]
      | _ \<Rightarrow> exc_text env e)"

text \<open>\<^verbatim>\<open>v[k]\<close> for a string \<open>k\<close>.\<close>

fun getitem :: "pyval \<Rightarrow> string \<Rightarrow> exn + pyval" where
  "getitem (PDict kvs) k = (case map_of kvs k of None \<Rightarrow> Inl (KeyError k) | Some v \<Rightarrow> Inr v)"
| "getitem v k = Inl (TypeError v)"

section \<open>The two stages\<close>

abbreviation NL :: string where
  "NL \<equiv> [CHR 0x0A]"

text \<open>The f-string \<^verbatim>\<open>prompt\<close> of \<^verbatim>\<open>extract_languages\<close>, line by line.\<close>

definition extract_languages_prompt :: "ConversionState \<Rightarrow> string" where
  "extract_languages_prompt state =
     NL @
     ''    Analyze the following prompt and identify the source and target programming languages.'' @ NL @
     ''    Return only a JSON object with 'source_language' and 'target_language'.'' @ NL @
     ''    Use lowercase language names from this list: python, javascript, typescript, java, csharp, go, rust, cpp, swift, kotlin.'' @ NL @
     ''    If languages are not explicitly mentioned, try to infer from context or code.'' @ NL @
     ''    '' @ NL @
     ''    Prompt: '' @ prompt state @ NL @
     ''    '' @ NL @
     ''    Code sample for reference:'' @ NL @
     ''    ```'' @ NL @
     ''    '' @ code state @ NL @
     ''    ```'' @ NL @
     ''    ''"

text \<open>The \<^verbatim>\<open>response_format\<close> of \<^verbatim>\<open>extract_languages\<close>.\<close>

definition extract_languages_response_format :: pyval where
  "extract_languages_response_format =
     PDict [
       (''type'', PStr ''object''),
       (''properties'', PDict [
          (''source_language'', PDict [
             (''type'', PStr ''string''),
             (''enum'', PList (map PStr language_values))]),
          (''target_language'', PDict [
             (''type'', PStr ''string''),
             (''enum'', PList (map PStr language_values))])]),
       (''required'', PList [PStr ''source_language'', PStr ''target_language''])]"

text \<open>The keyword arguments of the call of \<^verbatim>\<open>chat\<close> in \<^verbatim>\<open>extract_languages\<close>.\<close>

definition extract_languages_args :: "ConversionState \<Rightarrow> chat_args" where
  "extract_languages_args state =
     \<lparr>chat_args.prompt = extract_languages_prompt state,
      temperature = 0,
      response_format = extract_languages_response_format\<rparr>"

text \<open>
  \<^verbatim>\<open>extract_languages\<close>. The function writes into the dict it is given and returns it;
  here it returns the state updated. When the second subscript raises, the first value is
  already written into that dict, but no state is returned: the exception leaves the
  workflow, and the handler reads a state only when the workflow returns one.
\<close>

definition extract_languages ::
  "'g env \<Rightarrow> ConversionState \<Rightarrow> 'g world \<Rightarrow> (exn + ConversionState) \<times> 'g world" where
  "extract_languages env state w =
     (case call_chat env (extract_languages_args state) w of
        (Inl e, w') \<Rightarrow> (Inl e, w')
      | (Inr response, w') \<Rightarrow>
          (case json_loads env response of
             Inl e \<Rightarrow> (Inl e, w')
           | Inr languages \<Rightarrow>
               (case getitem languages ''source_language'' of
                  Inl e \<Rightarrow> (Inl e, w')
                | Inr src \<Rightarrow>
                    (case getitem languages ''target_language'' of
                       Inl e \<Rightarrow> (Inl e, w')
                     | Inr tgt \<Rightarrow>
                         (Inr (state\<lparr>source_language := src, target_language := tgt\<rparr>), w')))))"

text \<open>The keycap emoji \<^verbatim>\<open>1\<close> to \<^verbatim>\<open>5\<close> of the requirement lines: the digit, then
  U+FE0F and U+20E3; and the pushpin U+1F4CC of the heading.\<close>

definition keycap :: "char \<Rightarrow> string" where
  "keycap d = [d, CHR 0xEF, CHR 0xB8, CHR 0x8F, CHR 0xE2, CHR 0x83, CHR 0xA3]"

definition pushpin :: string where
  "pushpin = [CHR 0xF0, CHR 0x9F, CHR 0x93, CHR 0x8C]"

text \<open>The last lines of the f-string \<^verbatim>\<open>full_prompt\<close> of \<^verbatim>\<open>convert_code\<close>, from the
  empty line before the heading of the requirements to the end: they hold no replacement
  field.\<close>

definition conversion_requirements_block :: string where
  "conversion_requirements_block =
     NL @
     ''    **Conversion Requirements:**'' @ NL @
     ''    '' @ keycap CHR ''1'' @ '' Maintain the same functionality and logic'' @ NL @
     ''    '' @ keycap CHR ''2'' @ '' Use idiomatic patterns and best practices of the target language'' @ NL @
     ''    '' @ keycap CHR ''3'' @ '' Ensure the converted code is executable'' @ NL @
     ''    '' @ keycap CHR ''4'' @ '' Provide any language-specific considerations'' @ NL @
     ''    '' @ keycap CHR ''5'' @ '' Note potential compatibility issues'' @ NL @
     ''    ''"

text \<open>The f-string \<^verbatim>\<open>full_prompt\<close> of \<^verbatim>\<open>convert_code\<close>, line by line.\<close>

definition convert_code_full_prompt :: "'g env \<Rightarrow> ConversionState \<Rightarrow> string" where
  "convert_code_full_prompt env state =
     NL @
     ''    Please convert the following code from '' @ format_value env (source_language state) @
        '' to '' @ format_value env (target_language state) @ '':'' @ NL @
     NL @
     ''    ---'' @ NL @
     ''    ### **'' @ pushpin @ '' Original Code ('' @ format_value env (source_language state) @ '')**'' @ NL @
     ''    ```'' @ format_value env (source_language state) @ NL @
     ''    '' @ code state @ NL @
     ''    ```'' @ NL @
     conversion_requirements_block"

text \<open>The \<^verbatim>\<open>response_format\<close> of \<^verbatim>\<open>convert_code\<close>.\<close>

definition convert_code_response_format :: pyval where
  "convert_code_response_format =
     PDict [
       (''type'', PStr ''object''),
       (''properties'', PDict [
          (''code'', PDict [
             (''type'', PStr ''string''),
             (''description'', PStr ''The converted code'')]),
          (''language_specific_notes'', PDict [
             (''type'', PStr ''array''),
             (''items'', PDict [(''type'', PStr ''string'')]),
             (''description'', PStr ''Important notes about the target language'')]),
          (''potential_compatibility_issues'', PDict [
             (''type'', PStr ''array''),
             (''items'', PDict [(''type'', PStr ''string'')]),
             (''description'', PStr ''List of potential compatibility concerns'')])]),
       (''required'', PList [
          PStr ''code'',
          PStr ''language_specific_notes'',
          PStr ''potential_compatibility_issues''])]"

text \<open>The keyword arguments of the call of \<^verbatim>\<open>chat\<close> in \<^verbatim>\<open>convert_code\<close>.\<close>

definition convert_code_args :: "'g env \<Rightarrow> ConversionState \<Rightarrow> chat_args" where
  "convert_code_args env state =
     \<lparr>chat_args.prompt = convert_code_full_prompt env state,
      temperature = 3 / 10,
      response_format = convert_code_response_format\<rparr>"

text \<open>\<^verbatim>\<open>convert_code\<close>: whatever \<^verbatim>\<open>json.loads\<close> returns becomes the \<^verbatim>\<open>result\<close>.\<close>

definition convert_code ::
  "'g env \<Rightarrow> ConversionState \<Rightarrow> 'g world \<Rightarrow> (exn + ConversionState) \<times> 'g world" where
  "convert_code env state w =
     (case call_chat env (convert_code_args env state) w of
        (Inl e, w') \<Rightarrow> (Inl e, w')
      | (Inr response, w') \<Rightarrow>
          (case json_loads env response of
             Inl e \<Rightarrow> (Inl e, w')
           | Inr r \<Rightarrow> (Inr (state\<lparr>result := r\<rparr>), w')))"

section \<open>The workflow\<close>

text \<open>
  The part of \<^verbatim>\<open>langgraph.graph.StateGraph\<close> that \<^verbatim>\<open>build_chain\<close> uses: named
  nodes, and edges between names, where the entry point is an edge from \<^verbatim>\<open>START\<close> and
  the finish point an edge to \<^verbatim>\<open>END\<close>. Running the compiled graph follows the edge
  that leaves the current name, calls the node it reaches on the state, and stops at
  \<^verbatim>\<open>END\<close>, at a name no edge leaves, at the first exception of a node, or at the
  library's recursion limit of 25 steps. Every name of \<^verbatim>\<open>build_chain\<close> has at most
  one edge leaving it, so no fan-out is modelled.
\<close>

type_synonym 'g node = "ConversionState \<Rightarrow> 'g world \<Rightarrow> (exn + ConversionState) \<times> 'g world"

record 'g StateGraph =
  nodes :: "(string \<times> 'g node) list"
  edges :: "(string \<times> string) list"

definition START :: string where
  "START = ''__start__''"

definition END :: string where
  "END = ''__end__''"

definition StateGraph_init :: "'g StateGraph" where
  "StateGraph_init = \<lparr>nodes = [], edges = []\<rparr>"

definition add_node :: "string \<Rightarrow> 'g node \<Rightarrow> 'g StateGraph \<Rightarrow> 'g StateGraph" where
  "add_node name f workflow = workflow\<lparr>nodes := nodes workflow @ [(name, f)]\<rparr>"

definition add_edge :: "string \<Rightarrow> string \<Rightarrow> 'g StateGraph \<Rightarrow> 'g StateGraph" where
  "add_edge a b workflow = workflow\<lparr>edges := edges workflow @ [(a, b)]\<rparr>"

definition set_entry_point :: "string \<Rightarrow> 'g StateGraph \<Rightarrow> 'g StateGraph" where
  "set_entry_point name workflow = add_edge START name workflow"

definition set_finish_point :: "string \<Rightarrow> 'g StateGraph \<Rightarrow> 'g StateGraph" where
  "set_finish_point name workflow = add_edge name END workflow"

fun run_from ::
  "nat \<Rightarrow> 'g StateGraph \<Rightarrow> string \<Rightarrow> ConversionState \<Rightarrow> 'g world
     \<Rightarrow> (exn + ConversionState) \<times> 'g world" where
  "run_from 0 workflow name state w = (Inl (GraphError ''recursion limit''), w)"
| "run_from (Suc k) workflow name state w =
     (case map_of (edges workflow) name of
        None \<Rightarrow> (Inr state, w)
      | Some next_name \<Rightarrow>
          if next_name = END then (Inr state, w)
          else
            (case map_of (nodes workflow) next_name of
               None \<Rightarrow> (Inl (GraphError next_name), w)
             | Some f \<Rightarrow>
                 (case f state w of
                    (Inl e, w') \<Rightarrow> (Inl e, w')
                  | (Inr state', w') \<Rightarrow> run_from k workflow next_name state' w')))"

text \<open>\<^verbatim>\<open>chain.invoke(initial_state)\<close>.\<close>

definition invoke ::
  "'g StateGraph \<Rightarrow> ConversionState \<Rightarrow> 'g world \<Rightarrow> (exn + ConversionState) \<times> 'g world" where
  "invoke chain state w = run_from 25 chain START state w"

text \<open>\<^verbatim>\<open>build_chain\<close>; \<^verbatim>\<open>workflow.compile()\<close> is the graph as built.\<close>

definition build_chain :: "'g env \<Rightarrow> 'g StateGraph" where
  "build_chain env =
     set_finish_point ''convert_code''
       (set_entry_point ''extract_languages''
          (add_edge ''extract_languages'' ''convert_code''
             (add_node ''convert_code'' (convert_code env)
                (add_node ''extract_languages'' (extract_languages env)
                   StateGraph_init))))"

section \<open>The endpoint\<close>

text \<open>
  Building \<^verbatim>\<open>CodeConvertResponse\<close> validates its three fields: \<^verbatim>\<open>code: str\<close> takes a
  \<^verbatim>\<open>str\<close>, the two \<^verbatim>\<open>list[str]\<close> fields take a list of \<^verbatim>\<open>str\<close>; any other value
  of those that \<^verbatim>\<open>json.loads\<close> returns is refused, with one error naming every field
  refused.
\<close>

fun as_str :: "pyval \<Rightarrow> string option" where
  "as_str (PStr s) = Some s"
| "as_str v = None"

fun as_str_list :: "pyval \<Rightarrow> string list option" where
  "as_str_list (PList vs) = those (map as_str vs)"
| "as_str_list v = None"

definition CodeConvertResponse_init :: "pyval \<Rightarrow> pyval \<Rightarrow> pyval \<Rightarrow> exn + CodeConvertResponse" where
  "CodeConvertResponse_init c notes issues =
     (case (as_str c, as_str_list notes, as_str_list issues) of
        (Some c', Some notes', Some issues') \<Rightarrow>
          Inr \<lparr>CodeConvertResponse.code = c',
               language_specific_notes = notes',
               potential_compatibility_issues = issues'\<rparr>
      | _ \<Rightarrow>
          Inl (ValidationError
                 ((if as_str c = None then [''code''] else []) @
                  (if as_str_list notes = None then [''language_specific_notes''] else []) @
                  (if as_str_list issues = None then [''potential_compatibility_issues''] else []))))"

text \<open>\<^verbatim>\<open>initial_state\<close> of \<^verbatim>\<open>convert_code_endpoint\<close>.\<close>

definition initial_state :: "CodeConvertRequest \<Rightarrow> ConversionState" where
  "initial_state request =
     \<lparr>ConversionState.code = CodeConvertRequest.code request,
      ConversionState.prompt = CodeConvertRequest.prompt request,
      source_language = PStr [],
      target_language = PStr [],
      result = PDict []\<rparr>"

text \<open>The \<^verbatim>\<open>return\<close> of \<^verbatim>\<open>convert_code_endpoint\<close>, from \<^verbatim>\<open>final_state["result"]\<close>:
  the three subscripts are evaluated left to right, before the model is built.\<close>

definition response_from_result :: "pyval \<Rightarrow> exn + CodeConvertResponse" where
  "response_from_result r =
     (case getitem r ''code'' of
        Inl e \<Rightarrow> Inl e
      | Inr c \<Rightarrow>
          (case getitem r ''language_specific_notes'' of
             Inl e \<Rightarrow> Inl e
           | Inr notes \<Rightarrow>
               (case getitem r ''potential_compatibility_issues'' of
                  Inl e \<Rightarrow> Inl e
                | Inr issues \<Rightarrow> CodeConvertResponse_init c notes issues)))"

text \<open>The body of the \<^verbatim>\<open>try\<close> of \<^verbatim>\<open>convert_code_endpoint\<close>: \<open>Inl e\<close> when it raises
  \<open>e\<close>.\<close>

definition convert_code_endpoint_try ::
  "'g env \<Rightarrow> CodeConvertRequest \<Rightarrow> 'g world \<Rightarrow> (exn + CodeConvertResponse) \<times> 'g world" where
  "convert_code_endpoint_try env request w =
     (let chain = build_chain env
      in case invoke chain (initial_state request) w of
           (Inl e, w') \<Rightarrow> (Inl e, w')
         | (Inr final_state, w') \<Rightarrow> (response_from_result (result final_state), w'))"

text \<open>What the caller receives: the model with status 200 when the handler returns,
  the \<^verbatim>\<open>detail\<close> of the \<^verbatim>\<open>HTTPException\<close> with its status when it raises one.\<close>

datatype http_body = Model CodeConvertResponse | Detail string

record http_response =
  status_code :: nat
  body :: http_body

text \<open>The \<^verbatim>\<open>HTTPException\<close> of the \<^verbatim>\<open>except\<close> clause.\<close>

definition conversion_failed :: "'g env \<Rightarrow> exn \<Rightarrow> http_response" where
  "conversion_failed env e =
     \<lparr>status_code = 500, body = Detail (''Code conversion failed: '' @ exn_str env e)\<rparr>"

definition convert_code_endpoint ::
  "'g env \<Rightarrow> CodeConvertRequest \<Rightarrow> 'g world \<Rightarrow> http_response \<times> 'g world" where
  "convert_code_endpoint env request w =
     (case convert_code_endpoint_try env request w of
        (Inr response, w') \<Rightarrow> (\<lparr>status_code = 200, body = Model response\<rparr>, w')
      | (Inl e, w') \<Rightarrow> (conversion_failed env e, w'))"

section \<open>A decoder and a scripted gateway, for running the model\<close>

text \<open>
  The theorems below hold for every gateway and every \<^verbatim>\<open>json.loads\<close>. To run the model
  on the examples of the specification, \<open>json_decode\<close> reads the JSON texts that need no
  floating point and no \<^verbatim>\<open>\u\<close> escape (objects, arrays, strings with the two-character
  escapes, integers, \<^verbatim>\<open>true\<close>, \<^verbatim>\<open>false\<close>, \<^verbatim>\<open>null\<close>) and refuses every other text;
  the texts of its errors are its own. A key given twice keeps its last value, at the
  place of the first.
\<close>

definition is_ws :: "char \<Rightarrow> bool" where
  "is_ws c = (c = CHR '' '' \<or> c = CHR 0x0A \<or> c = CHR 0x0D \<or> c = CHR 0x09)"

definition skip_ws :: "string \<Rightarrow> string" where
  "skip_ws cs = dropWhile is_ws cs"

definition unescape :: "char \<Rightarrow> char option" where
  "unescape c =
     (if c = CHR 0x22 then Some (CHR 0x22)
      else if c = CHR 0x5C then Some (CHR 0x5C)
      else if c = CHR ''/'' then Some (CHR ''/'')
      else if c = CHR ''b'' then Some (CHR 0x08)
      else if c = CHR ''f'' then Some (CHR 0x0C)
      else if c = CHR ''n'' then Some (CHR 0x0A)
      else if c = CHR ''r'' then Some (CHR 0x0D)
      else if c = CHR ''t'' then Some (CHR 0x09)
      else None)"

text \<open>The rest of a string after its opening quote: the characters read so far are
  \<open>acc\<close>, last first.\<close>

fun scan_string :: "string \<Rightarrow> string \<Rightarrow> (string \<times> string) option" where
  "scan_string acc [] = None"
| "scan_string acc [c] = (if c = CHR 0x22 then Some (rev acc, []) else None)"
| "scan_string acc (c # d # cs) =
     (if c = CHR 0x22 then Some (rev acc, d # cs)
      else if c = CHR 0x5C then
        (case unescape d of None \<Rightarrow> None | Some x \<Rightarrow> scan_string (x # acc) cs)
      else if of_char c < (32 :: nat) then None
      else scan_string (c # acc) (d # cs))"

definition digit_of :: "char \<Rightarrow> nat option" where
  "digit_of c =
     (if (48 :: nat) \<le> of_char c \<and> of_char c \<le> (57 :: nat) then Some (of_char c - 48) else None)"

fun scan_digits :: "nat \<Rightarrow> string \<Rightarrow> nat \<times> string" where
  "scan_digits n [] = (n, [])"
| "scan_digits n (c # cs) =
     (case digit_of c of None \<Rightarrow> (n, c # cs) | Some d \<Rightarrow> scan_digits (10 * n + d) cs)"

text \<open>An integer with no leading zero, not followed by a fraction or an exponent.\<close>

definition scan_nat :: "string \<Rightarrow> (nat \<times> string) option" where
  "scan_nat cs =
     (case cs of
        [] \<Rightarrow> None
      | c # rest \<Rightarrow>
          (case digit_of c of
             None \<Rightarrow> None
           | Some d \<Rightarrow>
               (case (if d = 0 then (0, rest) else scan_digits d rest) of
                  (n, r) \<Rightarrow>
                    (case r of
                       [] \<Rightarrow> Some (n, r)
                     | x # _ \<Rightarrow>
                         if x = CHR ''.'' \<or> x = CHR ''e'' \<or> x = CHR ''E'' \<or> digit_of x \<noteq> None
                         then None else Some (n, r)))))"

fun starts_with :: "string \<Rightarrow> string \<Rightarrow> bool" where
  "starts_with [] s = True"
| "starts_with (a # as) [] = False"
| "starts_with (a # as) (b # bs) = (a = b \<and> starts_with as bs)"

definition dict_set :: "(string \<times> pyval) list \<Rightarrow> string \<Rightarrow> pyval \<Rightarrow> (string \<times> pyval) list" where
  "dict_set d k v =
     (if k \<in> fst ` set d then map (\<lambda>(k', v'). if k' = k then (k', v) else (k', v')) d
      else d @ [(k, v)])"

text \<open>The first argument bounds the nesting and the number of items read; a text of
  \<open>n\<close> characters is decoded with \<open>n + 1\<close>.\<close>

fun parse_value :: "nat \<Rightarrow> string \<Rightarrow> (pyval \<times> string) option"
  and parse_elements :: "nat \<Rightarrow> pyval list \<Rightarrow> string \<Rightarrow> (pyval list \<times> string) option"
  and parse_members ::
    "nat \<Rightarrow> (string \<times> pyval) list \<Rightarrow> string \<Rightarrow> ((string \<times> pyval) list \<times> string) option"
where
  "parse_value 0 cs = None"
| "parse_value (Suc n) cs =
     (case skip_ws cs of
        [] \<Rightarrow> None
      | c # rest \<Rightarrow>
          if c = CHR ''{'' then
            (if starts_with ''}'' (skip_ws rest) then Some (PDict [], tl (skip_ws rest))
             else map_option (\<lambda>(ms, r). (PDict ms, r)) (parse_members n [] rest))
          else if c = CHR ''['' then
            (if starts_with '']'' (skip_ws rest) then Some (PList [], tl (skip_ws rest))
             else map_option (\<lambda>(vs, r). (PList vs, r)) (parse_elements n [] rest))
          else if c = CHR 0x22 then
            map_option (\<lambda>(s, r). (PStr s, r)) (scan_string [] rest)
          else if starts_with ''true'' (c # rest) then Some (PBool True, drop 4 (c # rest))
          else if starts_with ''false'' (c # rest) then Some (PBool False, drop 5 (c # rest))
          else if starts_with ''null'' (c # rest) then Some (PNone, drop 4 (c # rest))
          else if c = CHR ''-'' then
            map_option (\<lambda>(k, r). (PInt (- int k), r)) (scan_nat rest)
          else map_option (\<lambda>(k, r). (PInt (int k), r)) (scan_nat (c # rest)))"
| "parse_elements 0 acc cs = None"
| "parse_elements (Suc n) acc cs =
     (case parse_value n cs of
        None \<Rightarrow> None
      | Some (v, r) \<Rightarrow>
          (case skip_ws r of
             [] \<Rightarrow> None
           | c # r' \<Rightarrow>
               if c = CHR '','' then parse_elements n (acc @ [v]) r'
               else if c = CHR '']'' then Some (acc @ [v], r')
               else None))"
| "parse_members 0 acc cs = None"
| "parse_members (Suc n) acc cs =
     (case skip_ws cs of
        [] \<Rightarrow> None
      | q # r0 \<Rightarrow>
          if q \<noteq> CHR 0x22 then None
          else
            (case scan_string [] r0 of
               None \<Rightarrow> None
             | Some (k, r1) \<Rightarrow>
                 (case skip_ws r1 of
                    [] \<Rightarrow> None
                  | colon # r2 \<Rightarrow>
                      if colon \<noteq> CHR '':'' then None
                      else
                        (case parse_value n r2 of
                           None \<Rightarrow> None
                         | Some (v, r3) \<Rightarrow>
                             (case skip_ws r3 of
                                [] \<Rightarrow> None
                              | c # r4 \<Rightarrow>
                                  if c = CHR '','' then parse_members n (dict_set acc k v) r4
                                  else if c = CHR ''}'' then Some (dict_set acc k v, r4)
                                  else None)))))"

definition json_decode :: "string \<Rightarrow> exn + pyval" where
  "json_decode s =
     (case parse_value (Suc (length s)) s of
        None \<Rightarrow> Inl (Raised ''Expecting value'')
      | Some (v, r) \<Rightarrow> if skip_ws r = [] then Inr v else Inl (Raised ''Extra data''))"

text \<open>A gateway that answers from a script, one entry a call, whatever it is asked;
  its state is what is left of the script.\<close>

definition scripted_chat ::
  "chat_args \<Rightarrow> (exn + string) list \<Rightarrow> (exn + string) \<times> (exn + string) list" where
  "scripted_chat args script =
     (case script of
        [] \<Rightarrow> (Inl (Raised ''script exhausted''), [])
      | r # rs \<Rightarrow> (r, rs))"

definition scripted_env :: "(exn + string) list env" where
  "scripted_env =
     \<lparr>chat = scripted_chat,
      json_loads = json_decode,
      py_str = (\<lambda>v. ''<value>''),
      exc_text = (\<lambda>e. ''<error>'')\<rparr>"

definition fresh_world :: "'g \<Rightarrow> 'g world" where
  "fresh_world g = \<lparr>gateway = g, calls = []\<rparr>"

section \<open>Reading the two instructions\<close>

text \<open>What an instruction text says, read off the text itself: the names it lists after
  \<^verbatim>\<open>from this list:\<close>, up to the full stop, and the requirements it numbers with keycap
  digits under its last heading \<^verbatim>\<open>**Conversion Requirements:**\<close>.\<close>

fun after_marker :: "string \<Rightarrow> string \<Rightarrow> string option" where
  "after_marker m [] = (if m = [] then Some [] else None)"
| "after_marker m (c # cs) =
     (if starts_with m (c # cs) then Some (drop (length m) (c # cs)) else after_marker m cs)"

fun split_on :: "char \<Rightarrow> string \<Rightarrow> string list" where
  "split_on sep [] = [[]]"
| "split_on sep (c # cs) =
     (if c = sep then [] # split_on sep cs
      else (case split_on sep cs of [] \<Rightarrow> [[c]] | l # ls \<Rightarrow> (c # l) # ls))"

definition lstrip :: "string \<Rightarrow> string" where
  "lstrip s = dropWhile (\<lambda>c. c = CHR '' '') s"

definition listed_languages :: "string \<Rightarrow> string list" where
  "listed_languages instruction =
     (case after_marker ''from this list: '' instruction of
        None \<Rightarrow> []
      | Some rest \<Rightarrow> map lstrip (split_on CHR '','' (takeWhile (\<lambda>c. c \<noteq> CHR ''.'') rest)))"

definition requirements_heading :: string where
  "requirements_heading = ''    **Conversion Requirements:**''"

text \<open>The lines after the last line that is the heading; none without a heading.\<close>

definition lines_after_heading :: "string \<Rightarrow> string list" where
  "lines_after_heading text =
     (let ls = split_on (CHR 0x0A) text
      in if requirements_heading \<in> set ls
         then rev (takeWhile (\<lambda>l. l \<noteq> requirements_heading) (rev ls))
         else [])"

text \<open>A numbered item: indentation, a keycap digit, then the item's text.\<close>

definition is_numbered_item :: "string \<Rightarrow> bool" where
  "is_numbered_item l =
     (case lstrip l of
        [] \<Rightarrow> False
      | d # rest \<Rightarrow> digit_of d \<noteq> None \<and> starts_with (tl (keycap d)) rest)"

definition item_text :: "string \<Rightarrow> string" where
  "item_text l = lstrip (drop 7 (lstrip l))"

definition enumerated_requirements :: "string \<Rightarrow> string list" where
  "enumerated_requirements text =
     map item_text (filter is_numbered_item (lines_after_heading text))"

section \<open>The examples of the specification\<close>

definition BS :: string where
  "BS = [CHR 0x5C]"

definition example_request :: CodeConvertRequest where
  "example_request =
     \<lparr>CodeConvertRequest.code = ''print('hi')'',
      CodeConvertRequest.prompt = ''Convert Python to Go''\<rparr>"

definition example_languages_json :: string where
  \<open>example_languages_json = ''{"source_language":"python","target_language":"go"}''\<close>

definition example_conversion_json :: string where
  \<open>example_conversion_json =
     ''{"code":"fmt.Println('' @ BS @ ''"hi'' @ BS @
     ''")","language_specific_notes":["Go requires explicit imports"],"potential_compatibility_issues":[]}''\<close>

definition example_response :: CodeConvertResponse where
  \<open>example_response =
     \<lparr>CodeConvertResponse.code = ''fmt.Println("hi")'',
      language_specific_notes = [''Go requires explicit imports''],
      potential_compatibility_issues = []\<rparr>\<close>

text \<open>A request for a language of the catalog that the instruction of
  \<^verbatim>\<open>extract_languages\<close> does not list, and an answer outside the catalog.\<close>

definition ruby_request :: CodeConvertRequest where
  "ruby_request =
     \<lparr>CodeConvertRequest.code = ''print('hi')'',
      CodeConvertRequest.prompt = ''Convert Python to Ruby''\<rparr>"

definition klingon_languages_json :: string where
  \<open>klingon_languages_json = ''{"source_language":"python","target_language":"klingon"}''\<close>

text \<open>\<^verbatim>\<open>v[k1][k2]...\<close>, for reading a \<^verbatim>\<open>response_format\<close>.\<close>

fun getpath :: "pyval \<Rightarrow> string list \<Rightarrow> exn + pyval" where
  "getpath v [] = Inr v"
| "getpath v (k # ks) = (case getitem v k of Inl e \<Rightarrow> Inl e | Inr v' \<Rightarrow> getpath v' ks)"

text \<open>Answers of the gateway that make the handler raise: an object with no key, an
  object that lacks \<^verbatim>\<open>target_language\<close>, an object with \<^verbatim>\<open>code\<close> only, an object
  whose \<^verbatim>\<open>code\<close> is a number and whose issues are not all strings, and an array.\<close>

definition empty_object_json :: string where
  "empty_object_json = ''{}''"

definition python_only_json :: string where
  \<open>python_only_json = ''{"source_language":"python"}''\<close>

definition code_only_json :: string where
  \<open>code_only_json = ''{"code":"x"}''\<close>

definition number_code_json :: string where
  \<open>number_code_json =
     ''{"code":1,"language_specific_notes":[],"potential_compatibility_issues":["a",2]}''\<close>

definition array_json :: string where
  "array_json = ''[]''"

section \<open>Facts about the model\<close>

subsection \<open>The gateway log and the frame of each stage\<close>

lemma call_chat_calls: "calls (snd (call_chat env a w)) = calls w @ [a]"
  by (simp add: call_chat_def split: prod.splits)

lemma call_chat_eq:
  "chat env a (gateway w) = (r, g') \<Longrightarrow>
   call_chat env a w = (r, \<lparr>gateway = g', calls = calls w @ [a]\<rparr>)"
  by (simp add: call_chat_def)

lemma extract_languages_calls:
  "calls (snd (extract_languages env st w)) = calls w @ [extract_languages_args st]"
  by (simp add: extract_languages_def call_chat_def split: prod.splits sum.splits)

lemma convert_code_calls:
  "calls (snd (convert_code env st w)) = calls w @ [convert_code_args env st]"
  by (simp add: convert_code_def call_chat_def split: prod.splits sum.splits)

lemma extract_languages_frame:
  "extract_languages env st w = (Inr st', w') \<Longrightarrow>
   st' = st\<lparr>source_language := source_language st', target_language := target_language st'\<rparr>"
  by (auto simp: extract_languages_def split: prod.splits sum.splits)

lemma convert_code_frame:
  "convert_code env st w = (Inr st', w') \<Longrightarrow> st' = st\<lparr>result := result st'\<rparr>"
  by (auto simp: convert_code_def split: prod.splits sum.splits)

subsection \<open>The workflow runs the two stages in order\<close>

lemma invoke_build_chain:
  "invoke (build_chain env) st w =
     (case extract_languages env st w of
        (Inl e, w') \<Rightarrow> (Inl e, w')
      | (Inr st', w') \<Rightarrow> convert_code env st' w')"
  unfolding invoke_def
  by (simp add: build_chain_def set_finish_point_def set_entry_point_def add_edge_def
      add_node_def StateGraph_init_def START_def END_def numeral_eq_Suc
      split: prod.splits sum.splits)

lemma try_eq:
  "convert_code_endpoint_try env request w =
     (case extract_languages env (initial_state request) w of
        (Inl e, w1) \<Rightarrow> (Inl e, w1)
      | (Inr st1, w1) \<Rightarrow>
          (case convert_code env st1 w1 of
             (Inl e, w2) \<Rightarrow> (Inl e, w2)
           | (Inr st2, w2) \<Rightarrow> (response_from_result (result st2), w2)))"
  by (simp add: convert_code_endpoint_try_def invoke_build_chain split: prod.splits sum.splits)

lemma endpoint_calls:
  "extract_languages env (initial_state request) w = (Inr s1, w1) \<Longrightarrow>
   snd (convert_code_endpoint env request w) = snd (convert_code env s1 w1)"
  by (simp add: convert_code_endpoint_def try_eq split: prod.splits sum.splits)

subsection \<open>When a stage and the handler raise\<close>

lemma extract_languages_raises_iff:
  "extract_languages env state w = (Inl e, w') \<longleftrightarrow>
     (\<exists>r g'. chat env (extract_languages_args state) (gateway w) = (r, g') \<and>
        w' = \<lparr>gateway = g', calls = calls w @ [extract_languages_args state]\<rparr> \<and>
        (r = Inl e \<or>
         (\<exists>response. r = Inr response \<and>
            (json_loads env response = Inl e \<or>
             (\<exists>languages. json_loads env response = Inr languages \<and>
                (getitem languages ''source_language'' = Inl e \<or>
                 (\<exists>src. getitem languages ''source_language'' = Inr src \<and>
                    getitem languages ''target_language'' = Inl e)))))))"
  by (auto simp: extract_languages_def call_chat_def split: prod.splits sum.splits)

lemma convert_code_raises_iff:
  "convert_code env state w = (Inl e, w') \<longleftrightarrow>
     (\<exists>r g'. chat env (convert_code_args env state) (gateway w) = (r, g') \<and>
        w' = \<lparr>gateway = g', calls = calls w @ [convert_code_args env state]\<rparr> \<and>
        (r = Inl e \<or> (\<exists>response. r = Inr response \<and> json_loads env response = Inl e)))"
  by (auto simp: convert_code_def call_chat_def split: prod.splits sum.splits)

lemma getitem_raises: "getitem v k = Inl e \<Longrightarrow> e = KeyError k \<or> e = TypeError v"
  by (cases v) (auto split: option.splits)

lemma try_raises_iff:
  "convert_code_endpoint_try env request w = (Inl e, w') \<longleftrightarrow>
     extract_languages env (initial_state request) w = (Inl e, w') \<or>
     (\<exists>s1 w1. extract_languages env (initial_state request) w = (Inr s1, w1) \<and>
        (convert_code env s1 w1 = (Inl e, w') \<or>
         (\<exists>s2. convert_code env s1 w1 = (Inr s2, w') \<and>
            response_from_result (result s2) = Inl e)))"
  by (auto simp: try_eq split: prod.splits sum.splits)

subsection \<open>Each cause of a failure, from what the gateway and the decoder return\<close>

lemma getitem_not_dict: "(\<forall>d. v \<noteq> PDict d) \<Longrightarrow> getitem v k = Inl (TypeError v)"
  by (cases v) simp_all

lemma response_from_result_not_dict:
  "(\<forall>d. v \<noteq> PDict d) \<Longrightarrow> response_from_result v = Inl (TypeError v)"
  by (simp add: response_from_result_def getitem_not_dict)

lemma response_from_result_no_code:
  "map_of d ''code'' = None \<Longrightarrow> response_from_result (PDict d) = Inl (KeyError ''code'')"
  by (simp add: response_from_result_def)

lemma response_from_result_no_notes:
  "map_of d ''code'' = Some c \<Longrightarrow> map_of d ''language_specific_notes'' = None \<Longrightarrow>
   response_from_result (PDict d) = Inl (KeyError ''language_specific_notes'')"
  by (simp add: response_from_result_def)

lemma response_from_result_no_issues:
  "map_of d ''code'' = Some c \<Longrightarrow> map_of d ''language_specific_notes'' = Some n \<Longrightarrow>
   map_of d ''potential_compatibility_issues'' = None \<Longrightarrow>
   response_from_result (PDict d) = Inl (KeyError ''potential_compatibility_issues'')"
  by (simp add: response_from_result_def)

lemma response_from_result_invalid:
  "map_of d ''code'' = Some c \<Longrightarrow> map_of d ''language_specific_notes'' = Some n \<Longrightarrow>
   map_of d ''potential_compatibility_issues'' = Some i \<Longrightarrow>
   as_str c = None \<or> as_str_list n = None \<or> as_str_list i = None \<Longrightarrow>
   response_from_result (PDict d) =
     Inl (ValidationError
            ((if as_str c = None then [''code''] else []) @
             (if as_str_list n = None then [''language_specific_notes''] else []) @
             (if as_str_list i = None then [''potential_compatibility_issues''] else [])))"
  by (auto simp: response_from_result_def CodeConvertResponse_init_def
      simp del: as_str_list.simps split: option.splits)

lemma endpoint_stage1_raises:
  "extract_languages env (initial_state request) w = (Inl e, w1) \<Longrightarrow>
   convert_code_endpoint env request w = (conversion_failed env e, w1)"
  by (simp add: convert_code_endpoint_def try_eq)

lemma endpoint_stage2_raises:
  "extract_languages env (initial_state request) w = (Inr s1, w1) \<Longrightarrow>
   convert_code env s1 w1 = (Inl e, w2) \<Longrightarrow>
   convert_code_endpoint env request w = (conversion_failed env e, w2)"
  by (simp add: convert_code_endpoint_def try_eq)

lemma endpoint_response_raises:
  "extract_languages env (initial_state request) w = (Inr s1, w1) \<Longrightarrow>
   convert_code env s1 w1 = (Inr s2, w2) \<Longrightarrow>
   response_from_result (result s2) = Inl e \<Longrightarrow>
   convert_code_endpoint env request w = (conversion_failed env e, w2)"
  by (simp add: convert_code_endpoint_def try_eq)

lemma extract_languages_ok:
  "chat env (extract_languages_args state) (gateway w) = (Inr r, g) \<Longrightarrow>
   json_loads env r = Inr (PDict d) \<Longrightarrow>
   map_of d ''source_language'' = Some src \<Longrightarrow>
   map_of d ''target_language'' = Some tgt \<Longrightarrow>
   extract_languages env state w =
     (Inr (state\<lparr>source_language := src, target_language := tgt\<rparr>),
      \<lparr>gateway = g, calls = calls w @ [extract_languages_args state]\<rparr>)"
  by (simp add: extract_languages_def call_chat_def)

lemma extract_languages_gateway_fails:
  "chat env (extract_languages_args state) (gateway w) = (Inl e, g) \<Longrightarrow>
   extract_languages env state w =
     (Inl e, \<lparr>gateway = g, calls = calls w @ [extract_languages_args state]\<rparr>)"
  by (simp add: extract_languages_def call_chat_def)

lemma extract_languages_loads_fails:
  "chat env (extract_languages_args state) (gateway w) = (Inr r, g) \<Longrightarrow>
   json_loads env r = Inl e \<Longrightarrow>
   extract_languages env state w =
     (Inl e, \<lparr>gateway = g, calls = calls w @ [extract_languages_args state]\<rparr>)"
  by (simp add: extract_languages_def call_chat_def)

lemma extract_languages_not_dict:
  "chat env (extract_languages_args state) (gateway w) = (Inr r, g) \<Longrightarrow>
   json_loads env r = Inr v \<Longrightarrow> (\<forall>d. v \<noteq> PDict d) \<Longrightarrow>
   extract_languages env state w =
     (Inl (TypeError v), \<lparr>gateway = g, calls = calls w @ [extract_languages_args state]\<rparr>)"
  by (simp add: extract_languages_def call_chat_def getitem_not_dict)

lemma extract_languages_no_source:
  "chat env (extract_languages_args state) (gateway w) = (Inr r, g) \<Longrightarrow>
   json_loads env r = Inr (PDict d) \<Longrightarrow> map_of d ''source_language'' = None \<Longrightarrow>
   extract_languages env state w =
     (Inl (KeyError ''source_language''),
      \<lparr>gateway = g, calls = calls w @ [extract_languages_args state]\<rparr>)"
  by (simp add: extract_languages_def call_chat_def)

lemma extract_languages_no_target:
  "chat env (extract_languages_args state) (gateway w) = (Inr r, g) \<Longrightarrow>
   json_loads env r = Inr (PDict d) \<Longrightarrow> map_of d ''source_language'' = Some src \<Longrightarrow>
   map_of d ''target_language'' = None \<Longrightarrow>
   extract_languages env state w =
     (Inl (KeyError ''target_language''),
      \<lparr>gateway = g, calls = calls w @ [extract_languages_args state]\<rparr>)"
  by (simp add: extract_languages_def call_chat_def)

lemma convert_code_gateway_fails:
  "chat env (convert_code_args env state) (gateway w) = (Inl e, g) \<Longrightarrow>
   convert_code env state w =
     (Inl e, \<lparr>gateway = g, calls = calls w @ [convert_code_args env state]\<rparr>)"
  by (simp add: convert_code_def call_chat_def)

lemma convert_code_loads_fails:
  "chat env (convert_code_args env state) (gateway w) = (Inr r, g) \<Longrightarrow>
   json_loads env r = Inl e \<Longrightarrow>
   convert_code env state w =
     (Inl e, \<lparr>gateway = g, calls = calls w @ [convert_code_args env state]\<rparr>)"
  by (simp add: convert_code_def call_chat_def)

lemma convert_code_ok:
  "chat env (convert_code_args env state) (gateway w) = (Inr r, g) \<Longrightarrow>
   json_loads env r = Inr v \<Longrightarrow>
   convert_code env state w =
     (Inr (state\<lparr>result := v\<rparr>),
      \<lparr>gateway = g, calls = calls w @ [convert_code_args env state]\<rparr>)"
  by (simp add: convert_code_def call_chat_def)

lemma endpoint_after_stage1:
  assumes "chat env (extract_languages_args (initial_state request)) (gateway w) = (Inr r1, g1)"
    and "json_loads env r1 = Inr (PDict d1)"
    and "map_of d1 ''source_language'' = Some src"
    and "map_of d1 ''target_language'' = Some tgt"
  shows "convert_code_endpoint env request w =
     (case convert_code env
             ((initial_state request)\<lparr>source_language := src, target_language := tgt\<rparr>)
             \<lparr>gateway = g1,
              calls = calls w @ [extract_languages_args (initial_state request)]\<rparr> of
        (Inl e, w2) \<Rightarrow> (conversion_failed env e, w2)
      | (Inr s2, w2) \<Rightarrow>
          (case response_from_result (result s2) of
             Inl e \<Rightarrow> (conversion_failed env e, w2)
           | Inr r \<Rightarrow> (\<lparr>status_code = 200, body = Model r\<rparr>, w2)))"
  using extract_languages_ok [OF assms]
  by (simp add: convert_code_endpoint_def try_eq split: prod.splits sum.splits)

subsection \<open>The catalog\<close>

lemma members_all: "set ProgrammingLanguage_members = UNIV"
proof -
  have "x \<in> set ProgrammingLanguage_members" for x
    by (cases x) (simp_all add: ProgrammingLanguage_members_def)
  then show ?thesis by auto
qed

lemma members_distinct: "distinct language_values"
  by (simp add: language_values_def ProgrammingLanguage_members_def)

lemma members_length: "length ProgrammingLanguage_members = 39"
  by (simp add: ProgrammingLanguage_members_def)

lemma klingon_not_in_catalog: "''klingon'' \<notin> set language_values"
  by (simp add: language_values_def ProgrammingLanguage_members_def)

subsection \<open>The response model\<close>

lemma as_str_list_strs: "as_str_list (PList (map PStr xs)) = Some xs"
  by (induction xs) simp_all

lemma response_from_result_ok:
  "map_of d ''code'' = Some (PStr c) \<Longrightarrow>
   map_of d ''language_specific_notes'' = Some (PList (map PStr the_notes)) \<Longrightarrow>
   map_of d ''potential_compatibility_issues'' = Some (PList (map PStr the_issues)) \<Longrightarrow>
   response_from_result (PDict d) =
     Inr \<lparr>CodeConvertResponse.code = c, language_specific_notes = the_notes,
          potential_compatibility_issues = the_issues\<rparr>"
  using as_str_list_strs [of the_notes] as_str_list_strs [of the_issues]
  by (simp add: response_from_result_def CodeConvertResponse_init_def del: as_str_list.simps)

subsection \<open>The lines of the conversion instruction\<close>

lemma split_on_nonempty: "split_on sep xs \<noteq> []"
  by (induction xs) (auto split: list.splits)

lemma split_on_append_sep: "split_on sep (xs @ sep # ys) = split_on sep xs @ split_on sep ys"
proof (induction xs)
  case Nil
  then show ?case by simp
next
  case (Cons c xs)
  then show ?case
    using split_on_nonempty [of sep xs]
    by (auto split: list.splits)
qed

lemma prompt_ends_with_block:
  "\<exists>pre. convert_code_full_prompt env state = pre @ conversion_requirements_block"
  unfolding convert_code_full_prompt_def append_assoc [symmetric]
  by (rule exI, rule refl)

lemma block_head: "conversion_requirements_block = CHR 0x0A # tl conversion_requirements_block"
  by (simp add: conversion_requirements_block_def)

lemma block_split:
  "split_on (CHR 0x0A) (tl conversion_requirements_block) =
     [requirements_heading,
      ''    '' @ keycap CHR ''1'' @ '' Maintain the same functionality and logic'',
      ''    '' @ keycap CHR ''2'' @ '' Use idiomatic patterns and best practices of the target language'',
      ''    '' @ keycap CHR ''3'' @ '' Ensure the converted code is executable'',
      ''    '' @ keycap CHR ''4'' @ '' Provide any language-specific considerations'',
      ''    '' @ keycap CHR ''5'' @ '' Note potential compatibility issues'',
      ''    '']"
  by code_simp

lemma numbered_items_of_block:
  "map item_text (filter is_numbered_item
     [''    '' @ keycap CHR ''1'' @ '' Maintain the same functionality and logic'',
      ''    '' @ keycap CHR ''2'' @ '' Use idiomatic patterns and best practices of the target language'',
      ''    '' @ keycap CHR ''3'' @ '' Ensure the converted code is executable'',
      ''    '' @ keycap CHR ''4'' @ '' Provide any language-specific considerations'',
      ''    '' @ keycap CHR ''5'' @ '' Note potential compatibility issues'',
      ''    '']) =
     [''Maintain the same functionality and logic'',
      ''Use idiomatic patterns and best practices of the target language'',
      ''Ensure the converted code is executable'',
      ''Provide any language-specific considerations'',
      ''Note potential compatibility issues'']"
  by code_simp

lemma heading_not_item:
  "requirements_heading \<notin> set
     [''    '' @ keycap CHR ''1'' @ '' Maintain the same functionality and logic'',
      ''    '' @ keycap CHR ''2'' @ '' Use idiomatic patterns and best practices of the target language'',
      ''    '' @ keycap CHR ''3'' @ '' Ensure the converted code is executable'',
      ''    '' @ keycap CHR ''4'' @ '' Provide any language-specific considerations'',
      ''    '' @ keycap CHR ''5'' @ '' Note potential compatibility issues'',
      ''    '']"
  by (simp add: requirements_heading_def keycap_def)

lemma lines_after_heading_append:
  "requirements_heading \<notin> set ls \<Longrightarrow>
   rev (takeWhile (\<lambda>l. l \<noteq> requirements_heading) (rev (pre @ requirements_heading # ls))) = ls"
proof -
  assume a: "requirements_heading \<notin> set ls"
  have "takeWhile (\<lambda>l. l \<noteq> requirements_heading) (rev ls @ requirements_heading # rev pre) = rev ls"
    using a by (simp add: takeWhile_append)
  then show ?thesis by simp
qed

lemma enumerated_requirements_eq:
  "enumerated_requirements (convert_code_full_prompt env state) =
     [''Maintain the same functionality and logic'',
      ''Use idiomatic patterns and best practices of the target language'',
      ''Ensure the converted code is executable'',
      ''Provide any language-specific considerations'',
      ''Note potential compatibility issues'']"
proof -
  obtain pre where p: "convert_code_full_prompt env state = pre @ conversion_requirements_block"
    using prompt_ends_with_block by blast
  let ?items = "[''    '' @ keycap CHR ''1'' @ '' Maintain the same functionality and logic'',
      ''    '' @ keycap CHR ''2'' @ '' Use idiomatic patterns and best practices of the target language'',
      ''    '' @ keycap CHR ''3'' @ '' Ensure the converted code is executable'',
      ''    '' @ keycap CHR ''4'' @ '' Provide any language-specific considerations'',
      ''    '' @ keycap CHR ''5'' @ '' Note potential compatibility issues'',
      ''    '']"
  have "convert_code_full_prompt env state = pre @ CHR 0x0A # tl conversion_requirements_block"
    using p block_head by simp
  then have l: "split_on (CHR 0x0A) (convert_code_full_prompt env state) =
      split_on (CHR 0x0A) pre @ requirements_heading # ?items"
    by (simp only: split_on_append_sep block_split)
  have "lines_after_heading (convert_code_full_prompt env state) = ?items"
    unfolding lines_after_heading_def Let_def l
    using lines_after_heading_append [OF heading_not_item, of "split_on (CHR 0x0A) pre"]
    by simp
  then show ?thesis
    unfolding enumerated_requirements_def using numbered_items_of_block by simp
qed

lemma listed_ten:
  "listed_languages (extract_languages_prompt state) =
     [''python'', ''javascript'', ''typescript'', ''java'', ''csharp'', ''go'', ''rust'', ''cpp'',
      ''swift'', ''kotlin'']"
  by (simp add: listed_languages_def extract_languages_prompt_def lstrip_def)

subsection \<open>Running the examples\<close>

lemma decode_example_languages:
  "json_decode example_languages_json =
     Inr (PDict [(''source_language'', PStr ''python''), (''target_language'', PStr ''go'')])"
  unfolding example_languages_json_def by code_simp

lemma decode_example_conversion:
  "json_decode example_conversion_json =
     Inr (PDict [(''code'', PStr (CodeConvertResponse.code example_response)),
                 (''language_specific_notes'', PList [PStr ''Go requires explicit imports'']),
                 (''potential_compatibility_issues'', PList [])])"
  unfolding example_conversion_json_def example_response_def BS_def by code_simp

lemma decode_klingon:
  "json_decode klingon_languages_json =
     Inr (PDict [(''source_language'', PStr ''python''), (''target_language'', PStr ''klingon'')])"
  unfolding klingon_languages_json_def by code_simp

lemma decode_garbage: "json_decode ''not json'' = Inl (Raised ''Expecting value'')"
  by code_simp

lemma decode_empty_object: "json_decode empty_object_json = Inr (PDict [])"
  unfolding empty_object_json_def by code_simp

lemma decode_python_only:
  "json_decode python_only_json = Inr (PDict [(''source_language'', PStr ''python'')])"
  unfolding python_only_json_def by code_simp

lemma decode_code_only: "json_decode code_only_json = Inr (PDict [(''code'', PStr ''x'')])"
  unfolding code_only_json_def by code_simp

lemma decode_number_code:
  "json_decode number_code_json =
     Inr (PDict [(''code'', PInt 1), (''language_specific_notes'', PList []),
                 (''potential_compatibility_issues'', PList [PStr ''a'', PInt 2])])"
  unfolding number_code_json_def by code_simp

lemma decode_array: "json_decode array_json = Inr (PList [])"
  unfolding array_json_def by code_simp

lemma scripted_chat_next: "chat scripted_env a (r # rs) = (r, rs)"
  by (simp add: scripted_env_def scripted_chat_def)

lemma scripted_loads: "json_loads scripted_env = json_decode"
  by (simp add: scripted_env_def)

lemma scripted_extract_example:
  "extract_languages scripted_env s \<lparr>gateway = Inr example_languages_json # rest, calls = cs\<rparr> =
     (Inr (s\<lparr>source_language := PStr ''python'', target_language := PStr ''go''\<rparr>),
      \<lparr>gateway = rest, calls = cs @ [extract_languages_args s]\<rparr>)"
  by (simp add: extract_languages_def call_chat_def scripted_chat_next scripted_loads
      decode_example_languages)

lemma scripted_convert_example:
  "convert_code scripted_env s \<lparr>gateway = Inr example_conversion_json # rest, calls = cs\<rparr> =
     (Inr (s\<lparr>result :=
         PDict [(''code'', PStr (CodeConvertResponse.code example_response)),
                (''language_specific_notes'', PList [PStr ''Go requires explicit imports'']),
                (''potential_compatibility_issues'', PList [])]\<rparr>),
      \<lparr>gateway = rest, calls = cs @ [convert_code_args scripted_env s]\<rparr>)"
  by (simp add: convert_code_def call_chat_def scripted_chat_next scripted_loads
      decode_example_conversion)

lemma scripted_convert_garbage:
  "convert_code scripted_env s \<lparr>gateway = Inr ''not json'' # rest, calls = cs\<rparr> =
     (Inl (Raised ''Expecting value''),
      \<lparr>gateway = rest, calls = cs @ [convert_code_args scripted_env s]\<rparr>)"
  by (simp add: convert_code_def call_chat_def scripted_chat_next scripted_loads decode_garbage)

lemma scripted_extract_down:
  "extract_languages scripted_env s \<lparr>gateway = Inl e # rest, calls = cs\<rparr> =
     (Inl e, \<lparr>gateway = rest, calls = cs @ [extract_languages_args s]\<rparr>)"
  by (simp add: extract_languages_def call_chat_def scripted_chat_next)

section \<open>The claims\<close>

text \<open>
  Claim C1. Whenever the gateway answers the call of the extraction stage with a text that
  \<^verbatim>\<open>json.loads\<close> reads as an object with the keys \<^verbatim>\<open>source_language\<close> and
  \<^verbatim>\<open>target_language\<close>, and the call of the conversion stage with a text read as an
  object whose \<^verbatim>\<open>code\<close> is a string and whose \<^verbatim>\<open>language_specific_notes\<close> and
  \<^verbatim>\<open>potential_compatibility_issues\<close> are lists of strings, the endpoint answers with
  status 200 and a body whose three fields are those three values, unchanged; the run
  has made these two calls of the gateway and no other.
\<close>

theorem endpoint_success:
  assumes "chat env (extract_languages_args (initial_state request)) (gateway w) = (Inr r1, g1)"
    and "json_loads env r1 = Inr (PDict d1)"
    and "map_of d1 ''source_language'' = Some src"
    and "map_of d1 ''target_language'' = Some tgt"
    and "chat env
           (convert_code_args env
              ((initial_state request)\<lparr>source_language := src, target_language := tgt\<rparr>)) g1 =
         (Inr r2, g2)"
    and "json_loads env r2 = Inr (PDict d2)"
    and "map_of d2 ''code'' = Some (PStr c)"
    and "map_of d2 ''language_specific_notes'' = Some (PList (map PStr the_notes))"
    and "map_of d2 ''potential_compatibility_issues'' = Some (PList (map PStr the_issues))"
  shows "convert_code_endpoint env request w =
           (\<lparr>status_code = 200,
             body = Model \<lparr>CodeConvertResponse.code = c, language_specific_notes = the_notes,
                           potential_compatibility_issues = the_issues\<rparr>\<rparr>,
            \<lparr>gateway = g2,
             calls = calls w @
               [extract_languages_args (initial_state request),
                convert_code_args env
                  ((initial_state request)\<lparr>source_language := src, target_language := tgt\<rparr>)]\<rparr>)"
proof -
  let ?s0 = "initial_state request"
  let ?w1 = "\<lparr>gateway = g1, calls = calls w @ [extract_languages_args ?s0]\<rparr>"
  let ?s1 = "?s0\<lparr>source_language := src, target_language := tgt\<rparr>"
  have 1: "extract_languages env ?s0 w = (Inr ?s1, ?w1)"
    using assms(1-4) by (simp add: extract_languages_def call_chat_def)
  have 2: "convert_code env ?s1 ?w1 =
             (Inr (?s1\<lparr>result := PDict d2\<rparr>),
              \<lparr>gateway = g2, calls = calls ?w1 @ [convert_code_args env ?s1]\<rparr>)"
    using assms(5,6) by (simp add: convert_code_def call_chat_def)
  have 3: "response_from_result (PDict d2) =
             Inr \<lparr>CodeConvertResponse.code = c, language_specific_notes = the_notes,
                  potential_compatibility_issues = the_issues\<rparr>"
    using assms(7-9) by (rule response_from_result_ok)
  show ?thesis
    by (simp add: convert_code_endpoint_def try_eq 1 2 3)
qed

text \<open>
  The example of the specification: the request \<^verbatim>\<open>{code: "print('hi')", prompt: "Convert
  Python to Go"}\<close>, a gateway that answers with the two texts of the example, decoded by
  \<open>json_decode\<close>.
\<close>

theorem endpoint_success_witness:
  "fst (convert_code_endpoint scripted_env example_request
          (fresh_world [Inr example_languages_json, Inr example_conversion_json])) =
     \<lparr>status_code = 200, body = Model example_response\<rparr>"
  using endpoint_success [where env = scripted_env and request = example_request
      and w = "fresh_world [Inr example_languages_json, Inr example_conversion_json]"
      and ?r1.0 = example_languages_json and ?g1.0 = "[Inr example_conversion_json]"
      and ?d1.0 = "[(''source_language'', PStr ''python''), (''target_language'', PStr ''go'')]"
      and src = "PStr ''python''" and tgt = "PStr ''go''"
      and ?r2.0 = example_conversion_json and ?g2.0 = "[]"
      and ?d2.0 = "[(''code'', PStr (CodeConvertResponse.code example_response)),
                (''language_specific_notes'', PList [PStr ''Go requires explicit imports'']),
                (''potential_compatibility_issues'', PList [])]"
      and c = "CodeConvertResponse.code example_response"
      and the_notes = "[''Go requires explicit imports'']" and the_issues = "[]"]
  by (simp add: scripted_chat_next scripted_loads fresh_world_def decode_example_languages
      decode_example_conversion example_response_def)

text \<open>
  Claim C2. Whatever raises in the body of the \<^verbatim>\<open>try\<close>, the endpoint answers with
  status 500 and the detail \<^verbatim>\<open>Code conversion failed: \<close> followed by \<^verbatim>\<open>str(e)\<close>, carries
  no model, and its status is never other than 200 or 500. Cause by cause, from what the
  gateway and \<^verbatim>\<open>json.loads\<close> return: the gateway fails in either stage; \<^verbatim>\<open>json.loads\<close>
  fails on either answer; the first answer is no object or lacks \<^verbatim>\<open>source_language\<close>
  or \<^verbatim>\<open>target_language\<close>; the second answer is no object, or lacks \<^verbatim>\<open>code\<close>,
  \<^verbatim>\<open>language_specific_notes\<close> or \<^verbatim>\<open>potential_compatibility_issues\<close> (the first one
  missing is the one reported), or holds a value the response model refuses. Each time the
  answer is the 500 of that exception, after one call of the gateway when the extraction
  stage raised and after two otherwise. The text of a \<^verbatim>\<open>KeyError\<close> is the key in single
  quotes, that of a collaborator's exception is its own.
\<close>

theorem endpoint_failure:
  "(let s0 = initial_state request;
        a1 = extract_languages_args s0;
        a2 = convert_code_args env (s0\<lparr>source_language := src, target_language := tgt\<rparr>);
        answer = convert_code_endpoint env request w;
        failed = (\<lambda>x g cs.
          (\<lparr>status_code = 500,
            body = Detail (''Code conversion failed: '' @ exn_str env x)\<rparr>,
           \<lparr>gateway = g, calls = calls w @ cs\<rparr>));
        stage1 = (chat env a1 (gateway w) = (Inr r1, g1) \<and>
                  json_loads env r1 = Inr (PDict d1) \<and>
                  map_of d1 ''source_language'' = Some src \<and>
                  map_of d1 ''target_language'' = Some tgt);
        stage2 = (stage1 \<and> chat env a2 g1 = (Inr r2, g2) \<and> json_loads env r2 = Inr (PDict d2))
    in
      (convert_code_endpoint_try env request w = (Inl e, w') \<longrightarrow>
         answer =
           (\<lparr>status_code = 500,
             body = Detail (''Code conversion failed: '' @ exn_str env e)\<rparr>, w')) \<and>
      (status_code (fst answer) = 200 \<or> status_code (fst answer) = 500) \<and>
      exn_str env (Raised m) = m \<and>
      exn_str env (KeyError k) = [CHR 0x27] @ k @ [CHR 0x27] \<and>
      (convert_code_endpoint_try env request w = (Inl e, w') \<longleftrightarrow>
         extract_languages env s0 w = (Inl e, w') \<or>
         (\<exists>s1 w1. extract_languages env s0 w = (Inr s1, w1) \<and>
            (convert_code env s1 w1 = (Inl e, w') \<or>
             (\<exists>s2. convert_code env s1 w1 = (Inr s2, w') \<and>
                response_from_result (result s2) = Inl e)))) \<and>
      (chat env a1 (gateway w) = (Inl e, g1) \<longrightarrow> answer = failed e g1 [a1]) \<and>
      (chat env a1 (gateway w) = (Inr r1, g1) \<and> json_loads env r1 = Inl e \<longrightarrow>
         answer = failed e g1 [a1]) \<and>
      (chat env a1 (gateway w) = (Inr r1, g1) \<and> json_loads env r1 = Inr v \<and>
       (\<forall>d. v \<noteq> PDict d) \<longrightarrow>
         answer = failed (TypeError v) g1 [a1]) \<and>
      (chat env a1 (gateway w) = (Inr r1, g1) \<and> json_loads env r1 = Inr (PDict d1) \<and>
       map_of d1 ''source_language'' = None \<longrightarrow>
         answer = failed (KeyError ''source_language'') g1 [a1]) \<and>
      (chat env a1 (gateway w) = (Inr r1, g1) \<and> json_loads env r1 = Inr (PDict d1) \<and>
       map_of d1 ''source_language'' = Some src \<and> map_of d1 ''target_language'' = None \<longrightarrow>
         answer = failed (KeyError ''target_language'') g1 [a1]) \<and>
      (stage1 \<and> chat env a2 g1 = (Inl e, g2) \<longrightarrow> answer = failed e g2 [a1, a2]) \<and>
      (stage1 \<and> chat env a2 g1 = (Inr r2, g2) \<and> json_loads env r2 = Inl e \<longrightarrow>
         answer = failed e g2 [a1, a2]) \<and>
      (stage1 \<and> chat env a2 g1 = (Inr r2, g2) \<and> json_loads env r2 = Inr v \<and>
       (\<forall>d. v \<noteq> PDict d) \<longrightarrow>
         answer = failed (TypeError v) g2 [a1, a2]) \<and>
      (stage2 \<and> map_of d2 ''code'' = None \<longrightarrow>
         answer = failed (KeyError ''code'') g2 [a1, a2]) \<and>
      (stage2 \<and> map_of d2 ''code'' = Some c \<and>
       map_of d2 ''language_specific_notes'' = None \<longrightarrow>
         answer = failed (KeyError ''language_specific_notes'') g2 [a1, a2]) \<and>
      (stage2 \<and> map_of d2 ''code'' = Some c \<and>
       map_of d2 ''language_specific_notes'' = Some n \<and>
       map_of d2 ''potential_compatibility_issues'' = None \<longrightarrow>
         answer = failed (KeyError ''potential_compatibility_issues'') g2 [a1, a2]) \<and>
      (stage2 \<and> map_of d2 ''code'' = Some c \<and>
       map_of d2 ''language_specific_notes'' = Some n \<and>
       map_of d2 ''potential_compatibility_issues'' = Some i \<and>
       (as_str c = None \<or> as_str_list n = None \<or> as_str_list i = None) \<longrightarrow>
         answer =
           failed
             (ValidationError
                ((if as_str c = None then [''code''] else []) @
                 (if as_str_list n = None then [''language_specific_notes''] else []) @
                 (if as_str_list i = None then [''potential_compatibility_issues''] else [])))
             g2 [a1, a2]))"
proof -
  let ?s0 = "initial_state request"
  let ?a1 = "extract_languages_args ?s0"
  let ?s1 = "?s0\<lparr>source_language := src, target_language := tgt\<rparr>"
  let ?a2 = "convert_code_args env ?s1"
  let ?w1 = "\<lparr>gateway = g1, calls = calls w @ [?a1]\<rparr>"
  let ?answer = "convert_code_endpoint env request w"
  let ?failed = "\<lambda>x g cs.
          (\<lparr>status_code = 500,
            body = Detail (''Code conversion failed: '' @ exn_str env x)\<rparr>,
           \<lparr>gateway = g, calls = calls w @ cs\<rparr>)"
  let ?stage1 = "chat env ?a1 (gateway w) = (Inr r1, g1) \<and>
                  json_loads env r1 = Inr (PDict d1) \<and>
                  map_of d1 ''source_language'' = Some src \<and>
                  map_of d1 ''target_language'' = Some tgt"
  let ?stage2 = "?stage1 \<and> chat env ?a2 g1 = (Inr r2, g2) \<and> json_loads env r2 = Inr (PDict d2)"
  have A1: "convert_code_endpoint_try env request w = (Inl e, w') \<longrightarrow>
         ?answer =
           (\<lparr>status_code = 500,
             body = Detail (''Code conversion failed: '' @ exn_str env e)\<rparr>, w')"
    by (simp add: convert_code_endpoint_def conversion_failed_def)
  have A2: "status_code (fst ?answer) = 200 \<or> status_code (fst ?answer) = 500"
    by (simp add: convert_code_endpoint_def conversion_failed_def split: prod.splits sum.splits)
  have A3: "exn_str env (Raised m) = m" "exn_str env (KeyError k) = [CHR 0x27] @ k @ [CHR 0x27]"
    by (simp_all add: exn_str_def)
  have A4: "convert_code_endpoint_try env request w = (Inl e, w') \<longleftrightarrow>
         extract_languages env ?s0 w = (Inl e, w') \<or>
         (\<exists>s1 w1. extract_languages env ?s0 w = (Inr s1, w1) \<and>
            (convert_code env s1 w1 = (Inl e, w') \<or>
             (\<exists>s2. convert_code env s1 w1 = (Inr s2, w') \<and>
                response_from_result (result s2) = Inl e)))"
    by (rule try_raises_iff)
  have B1: "chat env ?a1 (gateway w) = (Inl e, g1) \<longrightarrow> ?answer = ?failed e g1 [?a1]"
    by (auto dest!: extract_languages_gateway_fails endpoint_stage1_raises
        simp: conversion_failed_def)
  have B2: "chat env ?a1 (gateway w) = (Inr r1, g1) \<and> json_loads env r1 = Inl e \<longrightarrow>
         ?answer = ?failed e g1 [?a1]"
    using endpoint_stage1_raises [OF extract_languages_loads_fails, of env request w r1 g1 e]
    by (simp add: conversion_failed_def)
  have B3: "chat env ?a1 (gateway w) = (Inr r1, g1) \<and> json_loads env r1 = Inr v \<and>
       (\<forall>d. v \<noteq> PDict d) \<longrightarrow> ?answer = ?failed (TypeError v) g1 [?a1]"
    using endpoint_stage1_raises [OF extract_languages_not_dict, of env request w r1 g1 v]
    by (simp add: conversion_failed_def)
  have B4: "chat env ?a1 (gateway w) = (Inr r1, g1) \<and> json_loads env r1 = Inr (PDict d1) \<and>
       map_of d1 ''source_language'' = None \<longrightarrow>
         ?answer = ?failed (KeyError ''source_language'') g1 [?a1]"
    using endpoint_stage1_raises [OF extract_languages_no_source, of env request w r1 g1 d1]
    by (simp add: conversion_failed_def)
  have B5: "chat env ?a1 (gateway w) = (Inr r1, g1) \<and> json_loads env r1 = Inr (PDict d1) \<and>
       map_of d1 ''source_language'' = Some src \<and> map_of d1 ''target_language'' = None \<longrightarrow>
         ?answer = ?failed (KeyError ''target_language'') g1 [?a1]"
    using endpoint_stage1_raises [OF extract_languages_no_target, of env request w r1 g1 d1 src]
    by (simp add: conversion_failed_def)
  have S: "?stage1 \<Longrightarrow> ?answer =
     (case convert_code env ?s1 ?w1 of
        (Inl e, w2) \<Rightarrow> (conversion_failed env e, w2)
      | (Inr s2, w2) \<Rightarrow>
          (case response_from_result (result s2) of
             Inl e \<Rightarrow> (conversion_failed env e, w2)
           | Inr r \<Rightarrow> (\<lparr>status_code = 200, body = Model r\<rparr>, w2)))"
    using endpoint_after_stage1 [of env request w r1 g1 d1 src tgt] by blast
  have B6: "?stage1 \<and> chat env ?a2 g1 = (Inl e, g2) \<longrightarrow> ?answer = ?failed e g2 [?a1, ?a2]"
    using convert_code_gateway_fails [of env ?s1 ?w1 e g2]
    by (auto simp: S conversion_failed_def)
  have B7: "?stage1 \<and> chat env ?a2 g1 = (Inr r2, g2) \<and> json_loads env r2 = Inl e \<longrightarrow>
         ?answer = ?failed e g2 [?a1, ?a2]"
    using convert_code_loads_fails [of env ?s1 ?w1 r2 g2 e]
    by (auto simp: S conversion_failed_def)
  have B8: "?stage1 \<and> chat env ?a2 g1 = (Inr r2, g2) \<and> json_loads env r2 = Inr v \<and>
       (\<forall>d. v \<noteq> PDict d) \<longrightarrow> ?answer = ?failed (TypeError v) g2 [?a1, ?a2]"
    using convert_code_ok [of env ?s1 ?w1 r2 g2 v] response_from_result_not_dict [of v]
    by (auto simp: S conversion_failed_def)
  have R: "?stage2 \<Longrightarrow> ?answer =
          (case response_from_result (PDict d2) of
             Inl e \<Rightarrow> (conversion_failed env e, \<lparr>gateway = g2, calls = calls w @ [?a1, ?a2]\<rparr>)
           | Inr r \<Rightarrow> (\<lparr>status_code = 200, body = Model r\<rparr>,
                       \<lparr>gateway = g2, calls = calls w @ [?a1, ?a2]\<rparr>))"
    using convert_code_ok [of env ?s1 ?w1 r2 g2 "PDict d2"]
    by (auto simp: S)
  have B9: "?stage2 \<and> map_of d2 ''code'' = None \<longrightarrow>
         ?answer = ?failed (KeyError ''code'') g2 [?a1, ?a2]"
    using response_from_result_no_code [of d2]
    by (auto simp: R conversion_failed_def)
  have B10: "?stage2 \<and> map_of d2 ''code'' = Some c \<and>
       map_of d2 ''language_specific_notes'' = None \<longrightarrow>
         ?answer = ?failed (KeyError ''language_specific_notes'') g2 [?a1, ?a2]"
    using response_from_result_no_notes [of d2 c]
    by (auto simp: R conversion_failed_def)
  have B11: "?stage2 \<and> map_of d2 ''code'' = Some c \<and>
       map_of d2 ''language_specific_notes'' = Some n \<and>
       map_of d2 ''potential_compatibility_issues'' = None \<longrightarrow>
         ?answer = ?failed (KeyError ''potential_compatibility_issues'') g2 [?a1, ?a2]"
    using response_from_result_no_issues [of d2 c n]
    by (auto simp: R conversion_failed_def)
  have B12: "?stage2 \<and> map_of d2 ''code'' = Some c \<and>
       map_of d2 ''language_specific_notes'' = Some n \<and>
       map_of d2 ''potential_compatibility_issues'' = Some i \<and>
       (as_str c = None \<or> as_str_list n = None \<or> as_str_list i = None) \<longrightarrow>
         ?answer =
           ?failed
             (ValidationError
                ((if as_str c = None then [''code''] else []) @
                 (if as_str_list n = None then [''language_specific_notes''] else []) @
                 (if as_str_list i = None then [''potential_compatibility_issues''] else [])))
             g2 [?a1, ?a2]"
  proof (intro impI, elim conjE)
    assume h: "chat env ?a1 (gateway w) = (Inr r1, g1)" "json_loads env r1 = Inr (PDict d1)"
      "map_of d1 ''source_language'' = Some src" "map_of d1 ''target_language'' = Some tgt"
      "chat env ?a2 g1 = (Inr r2, g2)" "json_loads env r2 = Inr (PDict d2)"
      and k: "map_of d2 ''code'' = Some c" "map_of d2 ''language_specific_notes'' = Some n"
      "map_of d2 ''potential_compatibility_issues'' = Some i"
      "as_str c = None \<or> as_str_list n = None \<or> as_str_list i = None"
    have "?answer =
          (case response_from_result (PDict d2) of
             Inl e \<Rightarrow> (conversion_failed env e, \<lparr>gateway = g2, calls = calls w @ [?a1, ?a2]\<rparr>)
           | Inr r \<Rightarrow> (\<lparr>status_code = 200, body = Model r\<rparr>,
                       \<lparr>gateway = g2, calls = calls w @ [?a1, ?a2]\<rparr>))"
      using R h by blast
    then show "?answer =
           ?failed
             (ValidationError
                ((if as_str c = None then [''code''] else []) @
                 (if as_str_list n = None then [''language_specific_notes''] else []) @
                 (if as_str_list i = None then [''potential_compatibility_issues''] else [])))
             g2 [?a1, ?a2]"
      by (simp only: response_from_result_invalid [OF k]) (simp add: conversion_failed_def)
  qed
  show ?thesis
    unfolding Let_def
    using A1 A2 A3 A4 B1 B2 B3 B4 B5 B6 B7 B8 B9 B10 B11 B12
    by (intro conjI) assumption+
qed

text \<open>
  Eight runs of the example request, one for a cause each: the gateway down on the first
  call, a first answer that is not JSON, a first answer without \<^verbatim>\<open>target_language\<close>, the
  gateway down on the second call, a second answer that is not JSON, the second answer
  \<^verbatim>\<open>{}\<close>, a second answer with \<^verbatim>\<open>code\<close> only, and a second answer whose \<^verbatim>\<open>code\<close> is
  a number.
\<close>

theorem endpoint_failure_witness:
  "convert_code_endpoint scripted_env example_request
     (fresh_world [Inl (Raised ''gateway down''), Inr example_conversion_json]) =
     (\<lparr>status_code = 500, body = Detail ''Code conversion failed: gateway down''\<rparr>,
      \<lparr>gateway = [Inr example_conversion_json],
       calls = [extract_languages_args (initial_state example_request)]\<rparr>) \<and>
   convert_code_endpoint scripted_env example_request
     (fresh_world [Inr ''not json'', Inr example_conversion_json]) =
     (\<lparr>status_code = 500, body = Detail ''Code conversion failed: Expecting value''\<rparr>,
      \<lparr>gateway = [Inr example_conversion_json],
       calls = [extract_languages_args (initial_state example_request)]\<rparr>) \<and>
   convert_code_endpoint scripted_env example_request
     (fresh_world [Inr python_only_json, Inr example_conversion_json]) =
     (\<lparr>status_code = 500, body = Detail (''Code conversion failed: '' @ [CHR 0x27] @ ''target_language'' @ [CHR 0x27])\<rparr>,
      \<lparr>gateway = [Inr example_conversion_json],
       calls = [extract_languages_args (initial_state example_request)]\<rparr>) \<and>
   fst (convert_code_endpoint scripted_env example_request
     (fresh_world [Inr example_languages_json, Inl (Raised ''gateway down'')])) =
     \<lparr>status_code = 500, body = Detail ''Code conversion failed: gateway down''\<rparr> \<and>
   fst (convert_code_endpoint scripted_env example_request
     (fresh_world [Inr example_languages_json, Inr ''not json''])) =
     \<lparr>status_code = 500, body = Detail ''Code conversion failed: Expecting value''\<rparr> \<and>
   fst (convert_code_endpoint scripted_env example_request
     (fresh_world [Inr example_languages_json, Inr empty_object_json])) =
     \<lparr>status_code = 500, body = Detail (''Code conversion failed: '' @ [CHR 0x27] @ ''code'' @ [CHR 0x27])\<rparr> \<and>
   fst (convert_code_endpoint scripted_env example_request
     (fresh_world [Inr example_languages_json, Inr code_only_json])) =
     \<lparr>status_code = 500,
      body = Detail (''Code conversion failed: '' @ [CHR 0x27] @ ''language_specific_notes'' @ [CHR 0x27])\<rparr> \<and>
   fst (convert_code_endpoint scripted_env example_request
     (fresh_world [Inr example_languages_json, Inr number_code_json])) =
     \<lparr>status_code = 500,
      body = Detail (''Code conversion failed: '' @
        exc_text scripted_env
          (ValidationError [''code'', ''potential_compatibility_issues'']))\<rparr>"
proof -
  let ?d1 = "[(''source_language'', PStr ''python''), (''target_language'', PStr ''go'')]"
  note ev = Let_def scripted_chat_next scripted_loads fresh_world_def exn_str_def
    decode_example_languages decode_garbage
  have 1: "convert_code_endpoint scripted_env example_request
     (fresh_world [Inl (Raised ''gateway down''), Inr example_conversion_json]) =
     (\<lparr>status_code = 500, body = Detail ''Code conversion failed: gateway down''\<rparr>,
      \<lparr>gateway = [Inr example_conversion_json],
       calls = [extract_languages_args (initial_state example_request)]\<rparr>)"
    using endpoint_failure [where env = scripted_env and request = example_request
        and w = "fresh_world [Inl (Raised ''gateway down''), Inr example_conversion_json]"
        and e = "Raised ''gateway down''" and ?g1.0 = "[Inr example_conversion_json]"]
    by (simp add: ev)
  have 2: "convert_code_endpoint scripted_env example_request
     (fresh_world [Inr ''not json'', Inr example_conversion_json]) =
     (\<lparr>status_code = 500, body = Detail ''Code conversion failed: Expecting value''\<rparr>,
      \<lparr>gateway = [Inr example_conversion_json],
       calls = [extract_languages_args (initial_state example_request)]\<rparr>)"
    using endpoint_failure [where env = scripted_env and request = example_request
        and w = "fresh_world [Inr ''not json'', Inr example_conversion_json]"
        and e = "Raised ''Expecting value''" and ?g1.0 = "[Inr example_conversion_json]"
        and ?r1.0 = "''not json''"]
    by (simp add: ev)
  have 3: "convert_code_endpoint scripted_env example_request
     (fresh_world [Inr python_only_json, Inr example_conversion_json]) =
     (\<lparr>status_code = 500, body = Detail (''Code conversion failed: '' @ [CHR 0x27] @ ''target_language'' @ [CHR 0x27])\<rparr>,
      \<lparr>gateway = [Inr example_conversion_json],
       calls = [extract_languages_args (initial_state example_request)]\<rparr>)"
    using endpoint_failure [where env = scripted_env and request = example_request
        and w = "fresh_world [Inr python_only_json, Inr example_conversion_json]"
        and ?g1.0 = "[Inr example_conversion_json]"
        and ?r1.0 = python_only_json and ?d1.0 = "[(''source_language'', PStr ''python'')]"
        and src = "PStr ''python''"]
    by (simp add: ev decode_python_only)
  have 4: "fst (convert_code_endpoint scripted_env example_request
     (fresh_world [Inr example_languages_json, Inl (Raised ''gateway down'')])) =
     \<lparr>status_code = 500, body = Detail ''Code conversion failed: gateway down''\<rparr>"
    using endpoint_failure [where env = scripted_env and request = example_request
        and w = "fresh_world [Inr example_languages_json, Inl (Raised ''gateway down'')]"
        and ?r1.0 = example_languages_json and ?g1.0 = "[Inl (Raised ''gateway down'')]"
        and ?d1.0 = ?d1 and src = "PStr ''python''" and tgt = "PStr ''go''"
        and e = "Raised ''gateway down''" and ?g2.0 = "[]"]
    by (simp add: ev)
  have 5: "fst (convert_code_endpoint scripted_env example_request
     (fresh_world [Inr example_languages_json, Inr ''not json''])) =
     \<lparr>status_code = 500, body = Detail ''Code conversion failed: Expecting value''\<rparr>"
    using endpoint_failure [where env = scripted_env and request = example_request
        and w = "fresh_world [Inr example_languages_json, Inr ''not json'']"
        and ?r1.0 = example_languages_json and ?g1.0 = "[Inr ''not json'']"
        and ?d1.0 = ?d1 and src = "PStr ''python''" and tgt = "PStr ''go''"
        and e = "Raised ''Expecting value''" and ?g2.0 = "[]" and ?r2.0 = "''not json''"]
    by (simp add: ev)
  have 6: "fst (convert_code_endpoint scripted_env example_request
     (fresh_world [Inr example_languages_json, Inr empty_object_json])) =
     \<lparr>status_code = 500, body = Detail (''Code conversion failed: '' @ [CHR 0x27] @ ''code'' @ [CHR 0x27])\<rparr>"
    using endpoint_failure [where env = scripted_env and request = example_request
        and w = "fresh_world [Inr example_languages_json, Inr empty_object_json]"
        and ?r1.0 = example_languages_json and ?g1.0 = "[Inr empty_object_json]"
        and ?d1.0 = ?d1 and src = "PStr ''python''" and tgt = "PStr ''go''"
        and ?g2.0 = "[]" and ?r2.0 = empty_object_json and ?d2.0 = "[]"]
    by (simp add: ev decode_empty_object)
  have 7: "fst (convert_code_endpoint scripted_env example_request
     (fresh_world [Inr example_languages_json, Inr code_only_json])) =
     \<lparr>status_code = 500,
      body = Detail (''Code conversion failed: '' @ [CHR 0x27] @ ''language_specific_notes'' @ [CHR 0x27])\<rparr>"
    using endpoint_failure [where env = scripted_env and request = example_request
        and w = "fresh_world [Inr example_languages_json, Inr code_only_json]"
        and ?r1.0 = example_languages_json and ?g1.0 = "[Inr code_only_json]"
        and ?d1.0 = ?d1 and src = "PStr ''python''" and tgt = "PStr ''go''"
        and ?g2.0 = "[]" and ?r2.0 = code_only_json and ?d2.0 = "[(''code'', PStr ''x'')]"
        and c = "PStr ''x''"]
    by (simp add: ev decode_code_only)
  have 8: "fst (convert_code_endpoint scripted_env example_request
     (fresh_world [Inr example_languages_json, Inr number_code_json])) =
     \<lparr>status_code = 500,
      body = Detail (''Code conversion failed: '' @
        exc_text scripted_env
          (ValidationError [''code'', ''potential_compatibility_issues'']))\<rparr>"
    using endpoint_failure [where env = scripted_env and request = example_request
        and w = "fresh_world [Inr example_languages_json, Inr number_code_json]"
        and ?r1.0 = example_languages_json and ?g1.0 = "[Inr number_code_json]"
        and ?d1.0 = ?d1 and src = "PStr ''python''" and tgt = "PStr ''go''"
        and ?g2.0 = "[]" and ?r2.0 = number_code_json
        and ?d2.0 = "[(''code'', PInt 1), (''language_specific_notes'', PList []),
                 (''potential_compatibility_issues'', PList [PStr ''a'', PInt 2])]"
        and c = "PInt 1" and n = "PList []" and i = "PList [PStr ''a'', PInt 2]"]
    by (simp add: ev decode_number_code)
  show ?thesis
    using 1 2 3 4 5 6 7 8 by (intro conjI)
qed

text \<open>
  Claim C3, as stated, ends with: on any failing run the gateway is called at most once.
  That fails for a run that fails in the conversion stage: with a gateway whose second answer
  is not JSON the endpoint answers 500 after two calls.
\<close>

theorem failing_run_calls_gateway_twice:
  "status_code (fst (convert_code_endpoint scripted_env example_request
     (fresh_world [Inr example_languages_json, Inr ''not json'']))) = 500 \<and>
   length (calls (snd (convert_code_endpoint scripted_env example_request
     (fresh_world [Inr example_languages_json, Inr ''not json''])))) = 2"
  by (simp add: convert_code_endpoint_def try_eq fresh_world_def scripted_extract_example
      scripted_convert_garbage conversion_failed_def)

text \<open>
  Claim C3, amended. The call of the extraction stage is the first call of a run, and the
  call of the conversion stage is made with the state the extraction stage returned, after
  it. If the extraction stage raises, the endpoint answers 500 with that exception, the
  gateway has been called exactly once in the run, with the arguments of the extraction
  stage, and the call of the conversion stage is never made. If the extraction stage
  returns, the run makes exactly the two calls, in this order, whatever happens later. No
  run makes more than two calls.
\<close>

theorem extraction_before_conversion:
  "(extract_languages env (initial_state request) w = (Inl e, w1) \<longrightarrow>
      convert_code_endpoint env request w = (conversion_failed env e, w1) \<and>
      calls w1 = calls w @ [extract_languages_args (initial_state request)]) \<and>
   (extract_languages env (initial_state request) w = (Inr s1, w1') \<longrightarrow>
      snd (convert_code_endpoint env request w) = snd (convert_code env s1 w1') \<and>
      calls (snd (convert_code_endpoint env request w)) =
        calls w @ [extract_languages_args (initial_state request), convert_code_args env s1]) \<and>
   length (calls (snd (convert_code_endpoint env request w))) \<le> length (calls w) + 2"
proof (intro conjI impI)
  assume a: "extract_languages env (initial_state request) w = (Inl e, w1)"
  show "convert_code_endpoint env request w = (conversion_failed env e, w1)"
    by (simp add: convert_code_endpoint_def try_eq a)
  show "calls w1 = calls w @ [extract_languages_args (initial_state request)]"
    using extract_languages_calls [of env "initial_state request" w] a by simp
next
  assume b: "extract_languages env (initial_state request) w = (Inr s1, w1')"
  show s: "snd (convert_code_endpoint env request w) = snd (convert_code env s1 w1')"
    using b by (rule endpoint_calls)
  show "calls (snd (convert_code_endpoint env request w)) =
        calls w @ [extract_languages_args (initial_state request), convert_code_args env s1]"
    using extract_languages_calls [of env "initial_state request" w] b
      convert_code_calls [of env s1 w1']
    by (simp add: s)
next
  show "length (calls (snd (convert_code_endpoint env request w))) \<le> length (calls w) + 2"
  proof (cases "extract_languages env (initial_state request) w")
    case (Pair r w1)
    show ?thesis
    proof (cases r)
      case (Inl e)
      with Pair extract_languages_calls [of env "initial_state request" w]
      show ?thesis by (simp add: convert_code_endpoint_def try_eq)
    next
      case (Inr s1)
      with Pair extract_languages_calls [of env "initial_state request" w]
        convert_code_calls [of env s1 w1] endpoint_calls [of env request w s1 w1]
      show ?thesis by simp
    qed
  qed
qed

text \<open>
  A gateway that fails on the first call and has a second answer ready: that answer is
  still in the script after the run; and a gateway that answers both calls.
\<close>

theorem extraction_before_conversion_witness:
  "convert_code_endpoint scripted_env example_request
     (fresh_world [Inl (Raised ''gateway down''), Inr example_conversion_json]) =
     (\<lparr>status_code = 500, body = Detail ''Code conversion failed: gateway down''\<rparr>,
      \<lparr>gateway = [Inr example_conversion_json],
       calls = [extract_languages_args (initial_state example_request)]\<rparr>) \<and>
   calls (snd (convert_code_endpoint scripted_env example_request
     (fresh_world [Inr example_languages_json, Inr example_conversion_json]))) =
     [extract_languages_args (initial_state example_request),
      convert_code_args scripted_env
        ((initial_state example_request)
           \<lparr>source_language := PStr ''python'', target_language := PStr ''go''\<rparr>)]"
  using
    extraction_before_conversion [where env = scripted_env and request = example_request
      and w = "fresh_world [Inl (Raised ''gateway down''), Inr example_conversion_json]"
      and e = "Raised ''gateway down''"
      and ?w1.0 = "\<lparr>gateway = [Inr example_conversion_json],
                   calls = [extract_languages_args (initial_state example_request)]\<rparr>"]
    extraction_before_conversion [where env = scripted_env and request = example_request
      and w = "fresh_world [Inr example_languages_json, Inr example_conversion_json]"
      and ?s1.0 = "(initial_state example_request)
           \<lparr>source_language := PStr ''python'', target_language := PStr ''go''\<rparr>"
      and w1' = "\<lparr>gateway = [Inr example_conversion_json],
                   calls = [extract_languages_args (initial_state example_request)]\<rparr>"]
  by (simp add: fresh_world_def scripted_extract_example scripted_extract_down
      scripted_convert_example conversion_failed_def exn_str_def)

text \<open>
  Claim C4. A request built without a prompt is handled exactly as the request with the
  prompt \<^verbatim>\<open>Convert the code to the target language.\<close>: same response, same calls of
  the gateway, same state of the gateway afterwards.
\<close>

theorem default_prompt_same:
  "convert_code_endpoint env (CodeConvertRequest_init c None) w =
   convert_code_endpoint env
     (CodeConvertRequest_init c (Some ''Convert the code to the target language.'')) w"
  by (simp add: CodeConvertRequest_init_def default_prompt_def)

theorem default_prompt_same_witness:
  "convert_code_endpoint scripted_env (CodeConvertRequest_init ''print('hi')'' None)
     (fresh_world [Inr example_languages_json, Inr example_conversion_json]) =
   convert_code_endpoint scripted_env
     (CodeConvertRequest_init ''print('hi')'' (Some ''Convert the code to the target language.''))
     (fresh_world [Inr example_languages_json, Inr example_conversion_json])"
  using default_prompt_same [of scripted_env "''print('hi')''"
      "fresh_world [Inr example_languages_json, Inr example_conversion_json]"]
  by simp

text \<open>
  Claim C5. On every state, the extraction stage adds exactly one call to the gateway's
  log: its instruction as prompt, temperature 0, and a \<^verbatim>\<open>response_format\<close> that requires
  \<^verbatim>\<open>source_language\<close> and \<^verbatim>\<open>target_language\<close> and gives each the type string
  and, as \<^verbatim>\<open>enum\<close>, the values of all the members of \<^verbatim>\<open>ProgrammingLanguage\<close> (the
  list holds every member). If the gateway returns a text that \<^verbatim>\<open>json.loads\<close> reads
  and both keys can be read from the value, the stage returns the state with these two
  values written.
\<close>

theorem extract_languages_contract:
  "calls (snd (extract_languages env state w)) = calls w @ [extract_languages_args state] \<and>
   chat_args.prompt (extract_languages_args state) = extract_languages_prompt state \<and>
   temperature (extract_languages_args state) = 0 \<and>
   getitem (response_format (extract_languages_args state)) ''required'' =
     Inr (PList [PStr ''source_language'', PStr ''target_language'']) \<and>
   (\<forall>k \<in> {''source_language'', ''target_language''}.
      getpath (response_format (extract_languages_args state)) [''properties'', k, ''type''] =
        Inr (PStr ''string'') \<and>
      getpath (response_format (extract_languages_args state)) [''properties'', k, ''enum''] =
        Inr (PList (map (\<lambda>l. PStr (lang_value l)) ProgrammingLanguage_members))) \<and>
   set ProgrammingLanguage_members = UNIV \<and>
   (chat env (extract_languages_args state) (gateway w) = (Inr response, g') \<and>
    json_loads env response = Inr languages \<and>
    getitem languages ''source_language'' = Inr src \<and>
    getitem languages ''target_language'' = Inr tgt \<longrightarrow>
    extract_languages env state w =
      (Inr (state\<lparr>source_language := src, target_language := tgt\<rparr>),
       \<lparr>gateway = g', calls = calls w @ [extract_languages_args state]\<rparr>))"
proof -
  have "getpath (response_format (extract_languages_args state)) [''properties'', k, ''type''] =
          Inr (PStr ''string'') \<and>
        getpath (response_format (extract_languages_args state)) [''properties'', k, ''enum''] =
          Inr (PList (map (\<lambda>l. PStr (lang_value l)) ProgrammingLanguage_members))"
    if "k \<in> {''source_language'', ''target_language''}" for k
    using that
    by (auto simp: extract_languages_args_def extract_languages_response_format_def
        language_values_def comp_def)
  moreover have "getitem (response_format (extract_languages_args state)) ''required'' =
     Inr (PList [PStr ''source_language'', PStr ''target_language''])"
    by (simp add: extract_languages_args_def extract_languages_response_format_def)
  moreover have "chat env (extract_languages_args state) (gateway w) = (Inr response, g') \<and>
    json_loads env response = Inr languages \<and>
    getitem languages ''source_language'' = Inr src \<and>
    getitem languages ''target_language'' = Inr tgt \<longrightarrow>
    extract_languages env state w =
      (Inr (state\<lparr>source_language := src, target_language := tgt\<rparr>),
       \<lparr>gateway = g', calls = calls w @ [extract_languages_args state]\<rparr>)"
    by (simp add: extract_languages_def call_chat_def)
  ultimately show ?thesis
    using extract_languages_calls [of env state w] members_all
    by (simp add: extract_languages_args_def)
qed

theorem extract_languages_contract_witness:
  "extract_languages scripted_env (initial_state example_request)
     (fresh_world [Inr example_languages_json]) =
     (Inr ((initial_state example_request)
             \<lparr>source_language := PStr ''python'', target_language := PStr ''go''\<rparr>),
      \<lparr>gateway = [], calls = [extract_languages_args (initial_state example_request)]\<rparr>)"
  using extract_languages_contract [where env = scripted_env
      and state = "initial_state example_request"
      and w = "fresh_world [Inr example_languages_json]"
      and response = example_languages_json and g' = "[]"
      and languages = "PDict [(''source_language'', PStr ''python''), (''target_language'', PStr ''go'')]"
      and src = "PStr ''python''" and tgt = "PStr ''go''"]
  by (simp add: scripted_chat_next scripted_loads fresh_world_def decode_example_languages)

text \<open>
  Claim C6. On every state, the conversion stage adds exactly one call to the gateway's
  log: its instruction as prompt, temperature 0.3, and a \<^verbatim>\<open>response_format\<close> that
  requires \<^verbatim>\<open>code\<close>, \<^verbatim>\<open>language_specific_notes\<close> and
  \<^verbatim>\<open>potential_compatibility_issues\<close>, the first of type string, the other two arrays
  with items of type string. If the gateway returns a text that \<^verbatim>\<open>json.loads\<close> reads,
  the stage returns the state with the value read as its \<^verbatim>\<open>result\<close>.
\<close>

theorem convert_code_contract:
  "calls (snd (convert_code env state w)) = calls w @ [convert_code_args env state] \<and>
   chat_args.prompt (convert_code_args env state) = convert_code_full_prompt env state \<and>
   temperature (convert_code_args env state) = 3 / 10 \<and>
   getitem (response_format (convert_code_args env state)) ''required'' =
     Inr (PList [PStr ''code'', PStr ''language_specific_notes'',
                 PStr ''potential_compatibility_issues'']) \<and>
   getpath (response_format (convert_code_args env state)) [''properties'', ''code'', ''type''] =
     Inr (PStr ''string'') \<and>
   (\<forall>k \<in> {''language_specific_notes'', ''potential_compatibility_issues''}.
      getpath (response_format (convert_code_args env state)) [''properties'', k, ''type''] =
        Inr (PStr ''array'') \<and>
      getpath (response_format (convert_code_args env state))
        [''properties'', k, ''items'', ''type''] = Inr (PStr ''string'')) \<and>
   (chat env (convert_code_args env state) (gateway w) = (Inr response, g') \<and>
    json_loads env response = Inr r \<longrightarrow>
    convert_code env state w =
      (Inr (state\<lparr>result := r\<rparr>),
       \<lparr>gateway = g', calls = calls w @ [convert_code_args env state]\<rparr>))"
proof -
  have "getpath (response_format (convert_code_args env state)) [''properties'', k, ''type''] =
          Inr (PStr ''array'') \<and>
        getpath (response_format (convert_code_args env state))
          [''properties'', k, ''items'', ''type''] = Inr (PStr ''string'')"
    if "k \<in> {''language_specific_notes'', ''potential_compatibility_issues''}" for k
    using that by (auto simp: convert_code_args_def convert_code_response_format_def)
  moreover have "chat env (convert_code_args env state) (gateway w) = (Inr response, g') \<and>
    json_loads env response = Inr r \<longrightarrow>
    convert_code env state w =
      (Inr (state\<lparr>result := r\<rparr>),
       \<lparr>gateway = g', calls = calls w @ [convert_code_args env state]\<rparr>)"
    by (simp add: convert_code_def call_chat_def)
  ultimately show ?thesis
    using convert_code_calls [of env state w]
    by (simp add: convert_code_args_def convert_code_response_format_def)
qed

theorem convert_code_contract_witness:
  "convert_code scripted_env (initial_state example_request)
     (fresh_world [Inr example_conversion_json]) =
     (Inr ((initial_state example_request)
             \<lparr>result :=
                PDict [(''code'', PStr (CodeConvertResponse.code example_response)),
                       (''language_specific_notes'', PList [PStr ''Go requires explicit imports'']),
                       (''potential_compatibility_issues'', PList [])]\<rparr>),
      \<lparr>gateway = [],
       calls = [convert_code_args scripted_env (initial_state example_request)]\<rparr>)"
  using convert_code_contract [where env = scripted_env
      and state = "initial_state example_request"
      and w = "fresh_world [Inr example_conversion_json]"
      and response = example_conversion_json and g' = "[]"
      and r = "PDict [(''code'', PStr (CodeConvertResponse.code example_response)),
                       (''language_specific_notes'', PList [PStr ''Go requires explicit imports'']),
                       (''potential_compatibility_issues'', PList [])]"]
  by (simp add: scripted_chat_next scripted_loads fresh_world_def decode_example_conversion)

text \<open>
  Claim C7, as stated: the instruction of the conversion stage enumerates exactly four
  requirements. It numbers five, whatever the state: the fourth of the claim is two
  numbered lines of the instruction. At the state of the example:
\<close>

theorem requirements_not_four:
  "length (enumerated_requirements
     (convert_code_full_prompt scripted_env
        ((initial_state example_request)
           \<lparr>source_language := PStr ''python'', target_language := PStr ''go''\<rparr>))) \<noteq> 4"
  by (simp add: enumerated_requirements_eq)

text \<open>
  Claim C7, amended. For every state, the instruction of the conversion stage numbers
  exactly five requirements under its heading, with these texts, in this order.
\<close>

theorem five_requirements:
  "enumerated_requirements (convert_code_full_prompt env state) =
     [''Maintain the same functionality and logic'',
      ''Use idiomatic patterns and best practices of the target language'',
      ''Ensure the converted code is executable'',
      ''Provide any language-specific considerations'',
      ''Note potential compatibility issues'']"
  by (rule enumerated_requirements_eq)

text \<open>
  Claim C8 says that the instruction of the extraction stage admits every member of the
  catalog. For the request \<^verbatim>\<open>{code: "print('hi')", prompt: "Convert Python to Ruby"}\<close>
  the instruction lists ten names, \<^verbatim>\<open>ruby\<close> not among them, while the
  \<^verbatim>\<open>response_format\<close> of the same call enumerates every member of the catalog,
  \<^verbatim>\<open>RUBY\<close> among them.
\<close>

theorem instruction_lists_ten_languages:
  "listed_languages (extract_languages_prompt (initial_state ruby_request)) =
     [''python'', ''javascript'', ''typescript'', ''java'', ''csharp'', ''go'', ''rust'', ''cpp'',
      ''swift'', ''kotlin''] \<and>
   lang_value RUBY \<notin> set (listed_languages (extract_languages_prompt (initial_state ruby_request))) \<and>
   getpath (response_format (extract_languages_args (initial_state ruby_request)))
     [''properties'', ''target_language'', ''enum''] =
     Inr (PList (map (\<lambda>l. PStr (lang_value l)) ProgrammingLanguage_members)) \<and>
   RUBY \<in> set ProgrammingLanguage_members"
  by (simp add: listed_ten extract_languages_args_def extract_languages_response_format_def
      language_values_def comp_def ProgrammingLanguage_members_def)

text \<open>
  Claim C9. If the gateway returns a text that \<^verbatim>\<open>json.loads\<close> reads as an object with
  the keys \<^verbatim>\<open>source_language\<close> and \<^verbatim>\<open>target_language\<close>, the extraction stage
  returns the state with the two values written, whatever they are; and an exception of
  the stage is the gateway's, or that of \<^verbatim>\<open>json.loads\<close>, or the \<^verbatim>\<open>KeyError\<close> of one of
  the two keys, or the \<^verbatim>\<open>TypeError\<close> of subscripting a value that is no object: none
  comes from comparing a value with the catalog.
\<close>

theorem extract_languages_trusts_gateway:
  "(chat env (extract_languages_args state) (gateway w) = (Inr response, g') \<and>
    json_loads env response = Inr (PDict d) \<and>
    map_of d ''source_language'' = Some src \<and>
    map_of d ''target_language'' = Some tgt \<longrightarrow>
    extract_languages env state w =
      (Inr (state\<lparr>source_language := src, target_language := tgt\<rparr>),
       \<lparr>gateway = g', calls = calls w @ [extract_languages_args state]\<rparr>)) \<and>
   (extract_languages env state w = (Inl e, w') \<longrightarrow>
      (\<exists>g'. chat env (extract_languages_args state) (gateway w) = (Inl e, g')) \<or>
      (\<exists>response g'. chat env (extract_languages_args state) (gateway w) = (Inr response, g') \<and>
         (json_loads env response = Inl e \<or>
          (\<exists>languages. json_loads env response = Inr languages \<and>
             (e = KeyError ''source_language'' \<or> e = KeyError ''target_language'' \<or>
              e = TypeError languages)))))"
proof (intro conjI impI)
  assume "chat env (extract_languages_args state) (gateway w) = (Inr response, g') \<and>
    json_loads env response = Inr (PDict d) \<and>
    map_of d ''source_language'' = Some src \<and>
    map_of d ''target_language'' = Some tgt"
  then show "extract_languages env state w =
      (Inr (state\<lparr>source_language := src, target_language := tgt\<rparr>),
       \<lparr>gateway = g', calls = calls w @ [extract_languages_args state]\<rparr>)"
    by (simp add: extract_languages_def call_chat_def)
next
  assume "extract_languages env state w = (Inl e, w')"
  then show "(\<exists>g'. chat env (extract_languages_args state) (gateway w) = (Inl e, g')) \<or>
      (\<exists>response g'. chat env (extract_languages_args state) (gateway w) = (Inr response, g') \<and>
         (json_loads env response = Inl e \<or>
          (\<exists>languages. json_loads env response = Inr languages \<and>
             (e = KeyError ''source_language'' \<or> e = KeyError ''target_language'' \<or>
              e = TypeError languages))))"
    unfolding extract_languages_raises_iff
    using getitem_raises by blast
qed

text \<open>
  An answer naming \<^verbatim>\<open>klingon\<close>, which is no value of the catalog, is written to the
  state; an answer that is not JSON raises the decoder's error.
\<close>

theorem extract_languages_trusts_gateway_witness:
  "extract_languages scripted_env (initial_state example_request)
     (fresh_world [Inr klingon_languages_json]) =
     (Inr ((initial_state example_request)
             \<lparr>source_language := PStr ''python'', target_language := PStr ''klingon''\<rparr>),
      \<lparr>gateway = [], calls = [extract_languages_args (initial_state example_request)]\<rparr>) \<and>
   ''klingon'' \<notin> set language_values \<and>
   extract_languages scripted_env (initial_state example_request)
     (fresh_world [Inr ''not json'']) =
     (Inl (Raised ''Expecting value''),
      \<lparr>gateway = [], calls = [extract_languages_args (initial_state example_request)]\<rparr>) \<and>
   json_loads scripted_env ''not json'' = Inl (Raised ''Expecting value'')"
  using extract_languages_trusts_gateway [where env = scripted_env
      and state = "initial_state example_request"
      and w = "fresh_world [Inr klingon_languages_json]"
      and response = klingon_languages_json and g' = "[]"
      and d = "[(''source_language'', PStr ''python''), (''target_language'', PStr ''klingon'')]"
      and src = "PStr ''python''" and tgt = "PStr ''klingon''"]
    extract_languages_trusts_gateway [where env = scripted_env
      and state = "initial_state example_request"
      and w = "fresh_world [Inr ''not json'']"
      and e = "Raised ''Expecting value''"
      and w' = "\<lparr>gateway = [], calls = [extract_languages_args (initial_state example_request)]\<rparr>"]
    klingon_not_in_catalog
  by (simp add: scripted_chat_next scripted_loads fresh_world_def decode_klingon decode_garbage
      extract_languages_def call_chat_def)

text \<open>
  Claim C10. A state returned by the extraction stage has the \<^verbatim>\<open>code\<close>, \<^verbatim>\<open>prompt\<close>
  and \<^verbatim>\<open>result\<close> of the state it was given; a state returned by the conversion stage
  has the \<^verbatim>\<open>code\<close>, \<^verbatim>\<open>prompt\<close>, \<^verbatim>\<open>source_language\<close> and \<^verbatim>\<open>target_language\<close>
  of the state it was given.
\<close>

theorem stages_frame:
  "(extract_languages env s1 w1 = (Inr s1', w1') \<longrightarrow>
      ConversionState.code s1' = ConversionState.code s1 \<and>
      ConversionState.prompt s1' = ConversionState.prompt s1 \<and>
      result s1' = result s1) \<and>
   (convert_code env s2 w2 = (Inr s2', w2') \<longrightarrow>
      ConversionState.code s2' = ConversionState.code s2 \<and>
      ConversionState.prompt s2' = ConversionState.prompt s2 \<and>
      source_language s2' = source_language s2 \<and>
      target_language s2' = target_language s2)"
proof (intro conjI impI)
  assume a: "extract_languages env s1 w1 = (Inr s1', w1')"
  from extract_languages_frame [OF a]
  have e: "s1' = s1\<lparr>source_language := source_language s1', target_language := target_language s1'\<rparr>" .
  show "ConversionState.code s1' = ConversionState.code s1" by (subst e) simp
  show "ConversionState.prompt s1' = ConversionState.prompt s1" by (subst e) simp
  show "result s1' = result s1" by (subst e) simp
next
  assume b: "convert_code env s2 w2 = (Inr s2', w2')"
  from convert_code_frame [OF b] have e: "s2' = s2\<lparr>result := result s2'\<rparr>" .
  show "ConversionState.code s2' = ConversionState.code s2" by (subst e) simp
  show "ConversionState.prompt s2' = ConversionState.prompt s2" by (subst e) simp
  show "source_language s2' = source_language s2" by (subst e) simp
  show "target_language s2' = target_language s2" by (subst e) simp
qed

theorem stages_frame_witness:
  "extract_languages scripted_env (initial_state example_request)
     (fresh_world [Inr example_languages_json, Inr example_conversion_json]) =
     (Inr ((initial_state example_request)
             \<lparr>source_language := PStr ''python'', target_language := PStr ''go''\<rparr>),
      \<lparr>gateway = [Inr example_conversion_json],
       calls = [extract_languages_args (initial_state example_request)]\<rparr>) \<and>
   ConversionState.code ((initial_state example_request)
             \<lparr>source_language := PStr ''python'', target_language := PStr ''go''\<rparr>) =
     ConversionState.code (initial_state example_request) \<and>
   ConversionState.prompt ((initial_state example_request)
             \<lparr>source_language := PStr ''python'', target_language := PStr ''go''\<rparr>) =
     ConversionState.prompt (initial_state example_request) \<and>
   result ((initial_state example_request)
             \<lparr>source_language := PStr ''python'', target_language := PStr ''go''\<rparr>) =
     result (initial_state example_request) \<and>
   (\<exists>s2 w2.
      convert_code scripted_env
        ((initial_state example_request)
           \<lparr>source_language := PStr ''python'', target_language := PStr ''go''\<rparr>)
        \<lparr>gateway = [Inr example_conversion_json],
         calls = [extract_languages_args (initial_state example_request)]\<rparr> = (Inr s2, w2) \<and>
      result s2 \<noteq> result (initial_state example_request) \<and>
      ConversionState.code s2 = ''print('hi')'' \<and>
      ConversionState.prompt s2 = ''Convert Python to Go'' \<and>
      source_language s2 = PStr ''python'' \<and>
      target_language s2 = PStr ''go'')"
proof -
  let ?s0 = "initial_state example_request"
  let ?s1 = "?s0\<lparr>source_language := PStr ''python'', target_language := PStr ''go''\<rparr>"
  let ?w0 = "fresh_world [Inr example_languages_json, Inr example_conversion_json]"
  let ?w1 = "\<lparr>gateway = [Inr example_conversion_json], calls = [extract_languages_args ?s0]\<rparr>"
  let ?r = "PDict [(''code'', PStr (CodeConvertResponse.code example_response)),
                (''language_specific_notes'', PList [PStr ''Go requires explicit imports'']),
                (''potential_compatibility_issues'', PList [])]"
  let ?w2 = "\<lparr>gateway = [], calls = [extract_languages_args ?s0] @ [convert_code_args scripted_env ?s1]\<rparr>"
  have 1: "extract_languages scripted_env ?s0 ?w0 = (Inr ?s1, ?w1)"
    by (simp add: fresh_world_def scripted_extract_example)
  have 2: "convert_code scripted_env ?s1 ?w1 = (Inr (?s1\<lparr>result := ?r\<rparr>), ?w2)"
    by (simp add: scripted_convert_example)
  have 3: "ConversionState.code ?s1 = ConversionState.code ?s0 \<and>
      ConversionState.prompt ?s1 = ConversionState.prompt ?s0 \<and>
      result ?s1 = result ?s0"
    using stages_frame [where env = scripted_env and ?s1.0 = ?s0 and ?w1.0 = ?w0
        and s1' = ?s1 and w1' = ?w1] 1 by blast
  have 4: "ConversionState.code (?s1\<lparr>result := ?r\<rparr>) = ConversionState.code ?s1 \<and>
      ConversionState.prompt (?s1\<lparr>result := ?r\<rparr>) = ConversionState.prompt ?s1 \<and>
      source_language (?s1\<lparr>result := ?r\<rparr>) = source_language ?s1 \<and>
      target_language (?s1\<lparr>result := ?r\<rparr>) = target_language ?s1"
    using stages_frame [where env = scripted_env and ?s2.0 = ?s1 and ?w2.0 = ?w1
        and s2' = "?s1\<lparr>result := ?r\<rparr>" and w2' = ?w2] 2 by blast
  have 5: "result (?s1\<lparr>result := ?r\<rparr>) \<noteq> result ?s0"
    by (simp add: initial_state_def)
  have 6: "ConversionState.code ?s0 = ''print('hi')'' \<and>
           ConversionState.prompt ?s0 = ''Convert Python to Go''"
    by (simp add: initial_state_def example_request_def)
  show ?thesis
    using 1 2 3 4 5 6 by (intro conjI exI [of _ "?s1\<lparr>result := ?r\<rparr>"] exI [of _ ?w2]) simp_all
qed

end
